theory Spec2Isabelle
  imports Complex_Main "HOL-Library.Word"
begin

section \<open>Errors, paths and the coordinator table\<close>

text \<open>
  A \<open>modules.SiaPath\<close> is identified with its \<open>String()\<close>, the key of the
  \<open>bubbleUpdates\<close> map. Errors are values. An error that a collaborator outside this
  file hands back (the filesystem, the directory and file stores, the persistence of the
  table, the path operations) is an \<open>extern\<close>; \<open>NotExist\<close> stands for the errors on
  which \<open>os.IsNotExist\<close> answers true. \<open>New\<close> is \<open>errors.New\<close> (and \<open>fmt.Errorf\<close>),
  \<open>AddContext\<close> is \<open>errors.AddContext\<close>, \<open>NilDereference\<close> is the panic of a method
  call on a nil handle.
\<close>

type_synonym SiaPath = string

datatype extern = NotExist | Failure string

datatype error = New string | Extern extern | AddContext error string | NilDereference

fun IsNotExist :: "error option \<Rightarrow> bool" where
  "IsNotExist (Some (Extern NotExist)) = True"
| "IsNotExist _ = False"

section \<open>The metadata values\<close>

text \<open>
  \<open>float64\<close> values are read as reals: the code only compares them and takes
  \<open>math.Max\<close>, and the health model hands out no NaN. \<open>uint64\<close> counters are 64-bit
  words, so \<open>+\<close> and \<open>++\<close> wrap around. A \<open>time.Time\<close> is an instant on the integer
  line whose zero value \<open>time.Time{}\<close> is 0; \<open>After\<close> and \<open>Before\<close> are \<open>>\<close> and \<open><\<close>.
\<close>

type_synonym float64 = real
type_synonym uint64 = "64 word"
type_synonym Time = int

definition MaxFloat64 :: float64 where
  "MaxFloat64 = (2 ^ 53 - 1) * 2 ^ 971"

text \<open>\<open>siafile.BubbledMetadata\<close>; the fields carry the prefix \<open>bm\<close>.\<close>

record BubbledMetadata =
  bmHealth :: float64
  bmLastHealthCheckTime :: Time
  bmModTime :: Time
  bmNumStuckChunks :: uint64
  bmRedundancy :: float64
  bmSize :: uint64
  bmStuckHealth :: float64

definition BubbledMetadata_zero :: BubbledMetadata where
  "BubbledMetadata_zero =
     \<lparr>bmHealth = 0, bmLastHealthCheckTime = 0, bmModTime = 0, bmNumStuckChunks = 0,
      bmRedundancy = 0, bmSize = 0, bmStuckHealth = 0\<rparr>"

text \<open>\<open>siadir.Metadata\<close>, and its zero value \<open>siadir.Metadata{}\<close>.\<close>

record Metadata =
  AggregateHealth :: float64
  AggregateNumFiles :: uint64
  AggregateSize :: uint64
  Health :: float64
  LastHealthCheckTime :: Time
  MinRedundancy :: float64
  ModTime :: Time
  NumFiles :: uint64
  NumStuckChunks :: uint64
  NumSubDirs :: uint64
  StuckHealth :: float64

definition Metadata_zero :: Metadata where
  "Metadata_zero =
     \<lparr>AggregateHealth = 0, AggregateNumFiles = 0, AggregateSize = 0, Health = 0,
      LastHealthCheckTime = 0, MinRedundancy = 0, ModTime = 0, NumFiles = 0,
      NumStuckChunks = 0, NumSubDirs = 0, StuckHealth = 0\<rparr>"

text \<open>An \<open>os.FileInfo\<close>, as far as the code reads it.\<close>

record FileInfo =
  Name :: string
  IsDir :: bool

section \<open>The coordinator\<close>

text \<open>
  \<open>bubbleStatus\<close> with its four constants, in the order of the \<open>iota\<close> block. The
  type is an \<open>int\<close> in the source; the code stores nothing but these constants.
\<close>

datatype bubbleStatus = bubbleError | bubbleInit | bubbleActive | bubblePending

text \<open>
  The part of the renter that the bubble code reads and writes: the table
  \<open>bubbleUpdates\<close>, the copy of it that \<open>saveBubbleUpdates\<close> last wrote, the
  metadata records of the directory store, the goroutines started with
  \<open>go r.threadedBubbleMetadata(p)\<close> in the order of their start, and whether a unit is
  waiting in each of the two signal channels of the upload heap.
\<close>

record Renter =
  bubbleUpdates :: "string \<rightharpoonup> bubbleStatus"
  persisted :: "string \<rightharpoonup> bubbleStatus"
  staticDirSet :: "SiaPath \<rightharpoonup> Metadata"
  spawned :: "SiaPath list"
  repairNeeded :: bool
  stuckChunkFound :: bool

definition invalidBubbleStatus :: error where
  "invalidBubbleStatus = New ''WARN: invalid bubble status''"

text \<open>
  \<open>managedBubbleNeeded\<close>: the result is \<open>((needed, err), r')\<close>. An absent key is first
  stored as \<open>bubbleInit\<close>; the switch then runs on that status.
\<close>

definition managedBubbleNeeded ::
  "Renter \<Rightarrow> SiaPath \<Rightarrow> (bool \<times> error option) \<times> Renter" where
  "managedBubbleNeeded r siaPath =
     (let (status, r1) =
            (case bubbleUpdates r siaPath of
               None \<Rightarrow> (bubbleInit, r\<lparr>bubbleUpdates := (bubbleUpdates r)(siaPath \<mapsto> bubbleInit)\<rparr>)
             | Some st \<Rightarrow> (st, r))
      in case status of
           bubblePending \<Rightarrow> ((False, None), r1)
         | bubbleActive \<Rightarrow>
             ((False, None), r1\<lparr>bubbleUpdates := (bubbleUpdates r1)(siaPath \<mapsto> bubblePending)\<rparr>)
         | bubbleInit \<Rightarrow>
             ((True, None), r1\<lparr>bubbleUpdates := (bubbleUpdates r1)(siaPath \<mapsto> bubbleActive)\<rparr>)
         | bubbleError \<Rightarrow> ((False, Some invalidBubbleStatus), r1))"

text \<open>
  Modelled from the spec: \<open>saveBubbleUpdates\<close> is not among the sources. Section 6 of
  the specification says that the coordinator persists its map and that the stored
  form round-trips the map exactly. The first argument is what the persistence layer
  answers on this call: \<open>None\<close> when the write succeeds.
\<close>

definition saveBubbleUpdates :: "extern option \<Rightarrow> Renter \<Rightarrow> error option \<times> Renter" where
  "saveBubbleUpdates answer r =
     (case answer of
        None \<Rightarrow> (None, r\<lparr>persisted := bubbleUpdates r\<rparr>)
      | Some e \<Rightarrow> (Some (Extern e), r))"

text \<open>
  \<open>managedCompleteBubbleUpdate\<close>. In the pending case the deferred function starts
  the goroutine when the function exits, after the save and whatever the save answered.
\<close>

definition managedCompleteBubbleUpdate ::
  "extern option \<Rightarrow> Renter \<Rightarrow> SiaPath \<Rightarrow> error option \<times> Renter" where
  "managedCompleteBubbleUpdate answer r siaPath =
     (case bubbleUpdates r siaPath of
        None \<Rightarrow> (None, r)
      | Some status \<Rightarrow>
          (case status of
             bubblePending \<Rightarrow>
               (let r1 = r\<lparr>bubbleUpdates := (bubbleUpdates r)(siaPath \<mapsto> bubbleInit)\<rparr>;
                    (err, r2) = saveBubbleUpdates answer r1
                in (err, r2\<lparr>spawned := spawned r2 @ [siaPath]\<rparr>))
           | bubbleActive \<Rightarrow>
               saveBubbleUpdates answer (r\<lparr>bubbleUpdates := (bubbleUpdates r)(siaPath := None)\<rparr>)
           | bubbleInit \<Rightarrow> (Some invalidBubbleStatus, r)
           | bubbleError \<Rightarrow> (Some invalidBubbleStatus, r)))"

subsection \<open>Sequences of coordinator calls\<close>

text \<open>
  Any interleaving of goroutines reaches the table through the mutex, one call at a
  time: a sequence of calls. A \<open>Complete\<close> call carries the answer of the persistence
  layer during that call.
\<close>

datatype call = Needed SiaPath | Complete SiaPath "extern option"

datatype ret = NeededRet bool "error option" | CompleteRet "error option"

fun step :: "Renter \<Rightarrow> call \<Rightarrow> ret \<times> Renter" where
  "step r (Needed p) = (case managedBubbleNeeded r p of ((b, err), r') \<Rightarrow> (NeededRet b err, r'))"
| "step r (Complete p answer) =
     (case managedCompleteBubbleUpdate answer r p of (err, r') \<Rightarrow> (CompleteRet err, r'))"

fun run :: "Renter \<Rightarrow> call list \<Rightarrow> ret list \<times> Renter" where
  "run r [] = ([], r)"
| "run r (c # cs) =
     (case step r c of (x, r') \<Rightarrow> (case run r' cs of (xs, r'') \<Rightarrow> (x # xs, r'')))"

text \<open>The calls of a sequence on path \<open>p\<close> that are \<open>managedBubbleNeeded\<close> returning true.\<close>

fun admitted :: "SiaPath \<Rightarrow> call \<times> ret \<Rightarrow> bool" where
  "admitted p (Needed q, NeededRet b err) = (q = p \<and> b)"
| "admitted p _ = False"

definition admissions :: "SiaPath \<Rightarrow> Renter \<Rightarrow> call list \<Rightarrow> nat" where
  "admissions p r cs = length (filter (admitted p) (zip cs (fst (run r cs))))"

fun isComplete :: "SiaPath \<Rightarrow> call \<Rightarrow> bool" where
  "isComplete p (Complete q answer) = (q = p)"
| "isComplete p (Needed q) = False"

text \<open>A call that came back with the invalid-status error of the two switches.\<close>

fun invalidRet :: "ret \<Rightarrow> bool" where
  "invalidRet (NeededRet b err) = (err = Some invalidBubbleStatus)"
| "invalidRet (CompleteRet err) = (err = Some invalidBubbleStatus)"

text \<open>
  The driver's use of the table: \<open>managedCompleteBubbleUpdate\<close> is called for a path only
  by a driver run whose \<open>managedBubbleNeeded\<close> returned true, once. \<open>n\<close> counts the
  admitted runs on \<open>p\<close> that have not completed yet.
\<close>

fun driverProtocol :: "SiaPath \<Rightarrow> nat \<Rightarrow> Renter \<Rightarrow> call list \<Rightarrow> bool" where
  "driverProtocol p n r [] = True"
| "driverProtocol p n r (Needed q # cs) =
     (case managedBubbleNeeded r q of
        ((b, err), r') \<Rightarrow> driverProtocol p (if q = p \<and> b then Suc n else n) r' cs)"
| "driverProtocol p n r (Complete q answer # cs) =
     (if q = p
      then 0 < n \<and> driverProtocol p (n - 1) (snd (managedCompleteBubbleUpdate answer r q)) cs
      else driverProtocol p n (snd (managedCompleteBubbleUpdate answer r q)) cs)"

section \<open>The collaborators\<close>

text \<open>
  What the file entry returned by \<open>staticFileSet.Open\<close> answers to the calls that
  \<open>managedCalculateAndUpdateFileMetadata\<close> makes on it, in the order of the calls.
  The times and the size are read after the last-health-check time has been updated.
\<close>

record SiaFile =
  MarkAllHealthyChunksAsUnstuck :: "extern option"
  sfHealth :: "float64 \<times> float64 \<times> uint64"
  UpdateLastHealthCheckTime :: "extern option"
  sfRedundancy :: float64
  sfLastHealthCheckTime :: Time
  sfModTime :: Time
  sfSize :: uint64
  UpdateCachedHealthMetadata :: "extern option"

text \<open>
  The constants and functions that the code uses and that live outside the sources at
  hand are parameters: the constants of \<open>modules\<close>, \<open>siadir\<close> and \<open>siafile\<close>; the
  operations of a \<open>SiaPath\<close>; the filesystem (\<open>ioutil.ReadDir\<close> and \<open>os.Stat\<close> on a
  system path); the stop channel of the thread group, read at the start of the
  iteration with the given index; the clock, by the number of the reading; the file
  store; the failures of the directory store; the answer of the persistence layer to
  \<open>saveBubbleUpdates\<close>; and what the calls of other goroutines do to \<open>bubbleUpdates\<close>
  while a driver run is between its admission and its completion (the mutex is not
  held in between).
\<close>

record Env =
  SiaFileExtension :: string
  DefaultDirHealth :: float64
  RemoteRepairDownloadThreshold :: float64
  IsRoot :: "SiaPath \<Rightarrow> bool"
  Dir :: "SiaPath \<Rightarrow> SiaPath \<times> extern option"
  Join :: "SiaPath \<Rightarrow> string \<Rightarrow> SiaPath \<times> extern option"
  SiaDirSysPath :: "SiaPath \<Rightarrow> string"
  ReadDir :: "string \<Rightarrow> FileInfo list \<times> extern option"
  Stat :: "string \<Rightarrow> FileInfo \<times> extern option"
  StopChan :: "nat \<Rightarrow> bool"
  Now :: "nat \<Rightarrow> Time"
  staticFileSet_Open :: "SiaPath \<Rightarrow> SiaFile \<times> extern option"
  OpenFault :: "SiaPath \<Rightarrow> string option"
  NewSiaDirAnswer :: "SiaPath \<Rightarrow> Metadata \<times> extern option"
  UpdateMetadataAnswer :: "SiaPath \<Rightarrow> extern option"
  saveAnswer :: "extern option"
  otherGoroutines :: "(string \<rightharpoonup> bubbleStatus) \<Rightarrow> (string \<rightharpoonup> bubbleStatus)"

text \<open>
  Modelled from the spec: the directory store (\<open>siadir\<close>) is not among the sources.
  Section 6 gives \<open>open(path)\<close> returning a handle or NotFound, \<open>new(path)\<close> creating
  a record with default metadata, and \<open>metadata()\<close> and \<open>update_metadata\<close> on a handle.
  A handle is the metadata it reads; \<open>None\<close> is the nil handle that comes with an error.
  The code tests the results of \<open>NewSiaDir\<close> and \<open>UpdateMetadata\<close> for errors, so both
  can fail here.
\<close>

definition staticDirSet_Open :: "Env \<Rightarrow> Renter \<Rightarrow> SiaPath \<Rightarrow> Metadata option \<times> error option" where
  "staticDirSet_Open env r siaPath =
     (case staticDirSet r siaPath of
        None \<Rightarrow> (None, Some (Extern NotExist))
      | Some md \<Rightarrow>
          (case OpenFault env siaPath of
             Some msg \<Rightarrow> (None, Some (Extern (Failure msg)))
           | None \<Rightarrow> (Some md, None)))"

definition NewSiaDir ::
  "Env \<Rightarrow> Renter \<Rightarrow> SiaPath \<Rightarrow> (Metadata option \<times> error option) \<times> Renter" where
  "NewSiaDir env r siaPath =
     (case NewSiaDirAnswer env siaPath of
        (md, Some e) \<Rightarrow> ((None, Some (Extern e)), r)
      | (md, None) \<Rightarrow> ((Some md, None), r\<lparr>staticDirSet := (staticDirSet r)(siaPath \<mapsto> md)\<rparr>))"

definition UpdateMetadata :: "Env \<Rightarrow> Renter \<Rightarrow> SiaPath \<Rightarrow> Metadata \<Rightarrow> error option \<times> Renter" where
  "UpdateMetadata env r siaPath metadata =
     (case UpdateMetadataAnswer env siaPath of
        Some e \<Rightarrow> (Some (Extern e), r)
      | None \<Rightarrow> (None, r\<lparr>staticDirSet := (staticDirSet r)(siaPath \<mapsto> metadata)\<rparr>))"

text \<open>\<open>filepath.Ext\<close> and \<open>strings.TrimSuffix\<close> of the Go library.\<close>

definition Ext :: "string \<Rightarrow> string" where
  "Ext path =
     (let tail = takeWhile (\<lambda>c. c \<noteq> CHR ''/'') (rev path)
      in if CHR ''.'' \<in> set tail
         then CHR ''.'' # rev (takeWhile (\<lambda>c. c \<noteq> CHR ''.'') tail)
         else [])"

definition TrimSuffix :: "string \<Rightarrow> string \<Rightarrow> string" where
  "TrimSuffix s suffix =
     (if length suffix \<le> length s \<and> drop (length s - length suffix) s = suffix
      then take (length s - length suffix) s
      else s)"

section \<open>The file probe\<close>

text \<open>
  \<open>managedCalculateAndUpdateFileMetadata\<close>: the value and the error of the Go result.
  The last return hands back the assembled value together with whatever
  \<open>UpdateCachedHealthMetadata\<close> answered. The debug line about a missing local file
  changes nothing and is left out.
\<close>

definition managedCalculateAndUpdateFileMetadata ::
  "Env \<Rightarrow> SiaPath \<Rightarrow> BubbledMetadata \<times> error option" where
  "managedCalculateAndUpdateFileMetadata env siaPath =
     (case staticFileSet_Open env siaPath of
        (sf, Some e) \<Rightarrow> (BubbledMetadata_zero, Some (Extern e))
      | (sf, None) \<Rightarrow>
          (case MarkAllHealthyChunksAsUnstuck sf of
             Some e \<Rightarrow>
               (BubbledMetadata_zero,
                Some (AddContext (Extern e) ''unable to mark healthy chunks as unstuck''))
           | None \<Rightarrow>
               (case sfHealth sf of
                  (health, stuckHealth, numStuckChunks) \<Rightarrow>
                    (case UpdateLastHealthCheckTime sf of
                       Some e \<Rightarrow> (BubbledMetadata_zero, Some (Extern e))
                     | None \<Rightarrow>
                         (let redundancy = sfRedundancy sf
                          in (\<lparr>bmHealth = health,
                               bmLastHealthCheckTime = sfLastHealthCheckTime sf,
                               bmModTime = sfModTime sf,
                               bmNumStuckChunks = numStuckChunks,
                               bmRedundancy = redundancy,
                               bmSize = sfSize sf,
                               bmStuckHealth = stuckHealth\<rparr>,
                              map_option Extern (UpdateCachedHealthMetadata sf)))))))"

section \<open>Reading the metadata of a directory\<close>

text \<open>
  The end of \<open>managedDirectoryMetadata\<close>, on the variables \<open>siaDir\<close> and \<open>err\<close> of the
  function's own block: the error test, then \<open>siaDir.Metadata()\<close>.
\<close>

definition directoryMetadataResult :: "Metadata option \<Rightarrow> error option \<Rightarrow> Metadata \<times> error option" where
  "directoryMetadataResult siaDir err =
     (case err of
        Some e \<Rightarrow> (Metadata_zero, Some e)
      | None \<Rightarrow>
          (case siaDir of
             None \<Rightarrow> (Metadata_zero, Some NilDereference)
           | Some md \<Rightarrow> (md, None)))"

text \<open>
  \<open>managedDirectoryMetadata\<close>. Inside the block of \<open>if os.IsNotExist(err)\<close> the
  statement \<open>fileInfos, err := ioutil.ReadDir(...)\<close> declares a second \<open>err\<close>, since
  the first one belongs to the enclosing block. The later assignment
  \<open>siaDir, err = r.staticDirSet.NewSiaDir(siaPath)\<close> therefore writes the handle to the
  outer \<open>siaDir\<close> and the error to the inner \<open>err\<close> (\<open>errInner\<close> below), and the test
  after the block reads the outer \<open>err\<close>, which still holds the error of \<open>Open\<close>.
\<close>

definition managedDirectoryMetadata ::
  "Env \<Rightarrow> Renter \<Rightarrow> SiaPath \<Rightarrow> (Metadata \<times> error option) \<times> Renter" where
  "managedDirectoryMetadata env r siaPath =
     (case Stat env (SiaDirSysPath env siaPath) of
        (fi, Some e) \<Rightarrow> ((Metadata_zero, Some (Extern e)), r)
      | (fi, None) \<Rightarrow>
          if \<not> IsDir fi
          then ((Metadata_zero, Some (New (siaPath @ '' is not a directory''))), r)
          else
            (case staticDirSet_Open env r siaPath of
               (siaDir, err) \<Rightarrow>
                 if IsNotExist err
                 then
                   (let initError = err
                    in case ReadDir env (SiaDirSysPath env siaPath) of
                         (fileInfos, Some e) \<Rightarrow> ((Metadata_zero, Some (Extern e)), r)
                       | (fileInfos, None) \<Rightarrow>
                           if length fileInfos = 0 \<and> \<not> IsRoot env siaPath
                           then ((Metadata_zero, initError), r)
                           else
                             (case NewSiaDir env r siaPath of
                                ((siaDir', errInner), r') \<Rightarrow>
                                  (directoryMetadataResult siaDir' err, r')))
                 else (directoryMetadataResult siaDir err, r)))"

section \<open>Calculating the metadata of a directory\<close>

text \<open>
  The second half of the loop body of \<open>managedCalculateDirectoryMetadata\<close>, from
  "Update the Health of the directory" to the end of the body, on the variables that
  the first half has set. \<open>NumStuckChunks\<close> is increased in two places.
\<close>

definition updateFields ::
  "BubbledMetadata \<Rightarrow> float64 \<Rightarrow> float64 \<Rightarrow> float64 \<Rightarrow> uint64 \<Rightarrow> Time \<Rightarrow> Time \<Rightarrow> Metadata \<Rightarrow> Metadata" where
  "updateFields fileMetadata aggregateHealth stuckHealth redundancy numStuckChunks
       lastHealthCheckTime modTime metadata =
     (let m1 = (if bmHealth fileMetadata > Health metadata
                then metadata\<lparr>Health := bmHealth fileMetadata\<rparr> else metadata);
          m2 = (if aggregateHealth > AggregateHealth m1
                then m1\<lparr>AggregateHealth := aggregateHealth\<rparr> else m1);
          m3 = (if stuckHealth > StuckHealth m2 then m2\<lparr>StuckHealth := stuckHealth\<rparr> else m2);
          m4 = (if redundancy < MinRedundancy m3 then m3\<lparr>MinRedundancy := redundancy\<rparr> else m3);
          m5 = (if modTime > ModTime m4 then m4\<lparr>ModTime := modTime\<rparr> else m4);
          m6 = m5\<lparr>NumStuckChunks := NumStuckChunks m5 + numStuckChunks\<rparr>;
          m7 = (if lastHealthCheckTime < LastHealthCheckTime m6
                then m6\<lparr>LastHealthCheckTime := lastHealthCheckTime\<rparr> else m6)
      in m7\<lparr>NumStuckChunks := NumStuckChunks m7 + numStuckChunks\<rparr>)"

text \<open>
  One pass through the loop body after the shutdown check. \<open>Inl\<close> is a \<open>return\<close> of
  the whole function with that value and error; \<open>Inr\<close> is the metadata with which the
  next iteration starts, unchanged after a \<open>continue\<close>. \<open>fileMetadata\<close> is declared in
  the body, so it is the zero value unless this entry is a file whose probe succeeded.
\<close>

definition calculateEntry ::
  "Env \<Rightarrow> SiaPath \<Rightarrow> FileInfo \<Rightarrow> Metadata \<Rightarrow> Renter \<Rightarrow> ((Metadata \<times> error option) + Metadata) \<times> Renter" where
  "calculateEntry env siaPath fi metadata r =
     (let ext = Ext (Name fi)
      in if ext = SiaFileExtension env
         then
           (let fName = TrimSuffix (Name fi) (SiaFileExtension env)
            in case Join env siaPath fName of
                 (fileSiaPath, Some e) \<Rightarrow> (Inr metadata, r)
               | (fileSiaPath, None) \<Rightarrow>
                   (case managedCalculateAndUpdateFileMetadata env fileSiaPath of
                      (fileMetadata, Some e) \<Rightarrow> (Inr metadata, r)
                    | (fileMetadata, None) \<Rightarrow>
                        (Inr (updateFields fileMetadata (bmHealth fileMetadata)
                                (bmStuckHealth fileMetadata) (bmRedundancy fileMetadata)
                                (bmNumStuckChunks fileMetadata)
                                (bmLastHealthCheckTime fileMetadata) (bmModTime fileMetadata)
                                (metadata\<lparr>NumFiles := NumFiles metadata + 1,
                                   AggregateNumFiles := AggregateNumFiles metadata + 1,
                                   AggregateSize := AggregateSize metadata + bmSize fileMetadata\<rparr>)),
                         r)))
         else if IsDir fi
         then
           (case Join env siaPath (Name fi) of
              (dirSiaPath, Some e) \<Rightarrow> (Inl (Metadata_zero, Some (Extern e)), r)
            | (dirSiaPath, None) \<Rightarrow>
                (case managedDirectoryMetadata env r dirSiaPath of
                   ((dirMetadata, Some e), r') \<Rightarrow> (Inl (Metadata_zero, Some e), r')
                 | ((dirMetadata, None), r') \<Rightarrow>
                     (Inr (updateFields BubbledMetadata_zero
                             (max (AggregateHealth dirMetadata) (Health dirMetadata))
                             (StuckHealth dirMetadata) (MinRedundancy dirMetadata)
                             (NumStuckChunks dirMetadata)
                             (LastHealthCheckTime dirMetadata) (ModTime dirMetadata)
                             (metadata\<lparr>AggregateNumFiles :=
                                  AggregateNumFiles metadata + AggregateNumFiles dirMetadata,
                                AggregateSize := AggregateSize metadata + AggregateSize dirMetadata,
                                NumSubDirs := NumSubDirs metadata + 1\<rparr>)),
                      r')))
         else (Inr metadata, r))"

text \<open>
  The loop over the entries; \<open>i\<close> is the index of the first entry of the list. The
  shutdown case returns the outer \<open>err\<close>, which is nil once \<open>ReadDir\<close> has succeeded.
  \<open>Inr\<close> is the metadata after the last entry.
\<close>

fun calculateLoop ::
  "Env \<Rightarrow> SiaPath \<Rightarrow> nat \<Rightarrow> FileInfo list \<Rightarrow> Metadata \<Rightarrow> Renter \<Rightarrow> ((Metadata \<times> error option) + Metadata) \<times> Renter" where
  "calculateLoop env siaPath i [] metadata r = (Inr metadata, r)"
| "calculateLoop env siaPath i (fi # fis) metadata r =
     (if StopChan env i
      then (Inl (Metadata_zero, None), r)
      else
        (case calculateEntry env siaPath fi metadata r of
           (Inl ret, r') \<Rightarrow> (Inl ret, r')
         | (Inr metadata', r') \<Rightarrow> calculateLoop env siaPath (Suc i) fis metadata' r'))"

definition defaultMetadata :: "Env \<Rightarrow> Metadata" where
  "defaultMetadata env =
     \<lparr>AggregateHealth = DefaultDirHealth env, AggregateNumFiles = 0, AggregateSize = 0,
      Health = DefaultDirHealth env, LastHealthCheckTime = Now env 0,
      MinRedundancy = MaxFloat64, ModTime = 0, NumFiles = 0, NumStuckChunks = 0,
      NumSubDirs = 0, StuckHealth = DefaultDirHealth env\<rparr>"

text \<open>The two sanity checks after the loop.\<close>

definition sanityChecks :: "Env \<Rightarrow> Metadata \<Rightarrow> Metadata" where
  "sanityChecks env metadata =
     (let m1 = (if ModTime metadata = 0 then metadata\<lparr>ModTime := Now env 1\<rparr> else metadata)
      in if MinRedundancy m1 = MaxFloat64 then m1\<lparr>MinRedundancy := 0\<rparr> else m1)"

definition managedCalculateDirectoryMetadata ::
  "Env \<Rightarrow> Renter \<Rightarrow> SiaPath \<Rightarrow> (Metadata \<times> error option) \<times> Renter" where
  "managedCalculateDirectoryMetadata env r siaPath =
     (let metadata = defaultMetadata env
      in case ReadDir env (SiaDirSysPath env siaPath) of
           (fileinfos, Some e) \<Rightarrow> ((Metadata_zero, Some (Extern e)), r)
         | (fileinfos, None) \<Rightarrow>
             (case calculateLoop env siaPath 0 fileinfos metadata r of
                (Inl ret, r') \<Rightarrow> (ret, r')
              | (Inr metadata', r') \<Rightarrow> ((sanityChecks env metadata', None), r')))"

section \<open>The bubble driver\<close>

text \<open>
  Modelled from the spec: the two signal channels are made outside the sources.
  Section 6 gives them capacity 1 with drop on full, so after a non-blocking send a
  unit is waiting in the channel whether or not one was there before.
\<close>

definition signalRepairNeeded :: "Renter \<Rightarrow> Renter" where
  "signalRepairNeeded r = r\<lparr>repairNeeded := True\<rparr>"

definition signalStuckChunkFound :: "Renter \<Rightarrow> Renter" where
  "signalStuckChunkFound r = r\<lparr>stuckChunkFound := True\<rparr>"

text \<open>
  The body of \<open>managedBubbleMetadata\<close> after the deferred function has been set up:
  the calculation, the write of the record, the signals at the root, and the error
  that the body returns.
\<close>

definition bubbleBody :: "Env \<Rightarrow> Renter \<Rightarrow> SiaPath \<Rightarrow> error option \<times> Renter" where
  "bubbleBody env r siaPath =
     (case managedCalculateDirectoryMetadata env r siaPath of
        ((metadata, Some e), r1) \<Rightarrow>
          (Some (AddContext e (''could not calculate the metadata of directory ''
                                @ SiaDirSysPath env siaPath)), r1)
      | ((metadata, None), r1) \<Rightarrow>
          (case (case staticDirSet_Open env r1 siaPath of
                   (siaDir, Some e) \<Rightarrow>
                     (Some (AddContext e (''could not open directory ''
                                           @ SiaDirSysPath env siaPath)), r1)
                 | (siaDir, None) \<Rightarrow>
                     (case UpdateMetadata env r1 siaPath metadata of
                        (Some e, r2) \<Rightarrow>
                          (Some (AddContext e (''could not update the metadata of the  directory ''
                                                @ SiaDirSysPath env siaPath)), r2)
                      | (None, r2) \<Rightarrow> (None, r2))) of
             (err, r2) \<Rightarrow>
               if IsRoot env siaPath
               then
                 (let r3 = (if AggregateHealth metadata \<ge> RemoteRepairDownloadThreshold env
                            then signalRepairNeeded r2 else r2);
                      r4 = (if NumStuckChunks metadata > 0 then signalStuckChunkFound r3 else r3)
                  in (err, r4))
               else (err, r2)))"

text \<open>
  The deferred function of \<open>managedBubbleMetadata\<close>. The error it returns is dropped
  by the runtime; it is kept here to show which branch was taken.
\<close>

definition bubbleDeferred :: "Env \<Rightarrow> Renter \<Rightarrow> SiaPath \<Rightarrow> error option \<times> Renter" where
  "bubbleDeferred env r siaPath =
     (case managedCompleteBubbleUpdate (saveAnswer env) r siaPath of
        (Some e, r1) \<Rightarrow> (Some (AddContext e ''error in completing bubble''), r1)
      | (None, r1) \<Rightarrow>
          if IsRoot env siaPath
          then (None, r1)
          else
            (case Dir env siaPath of
               (parentDir, Some e) \<Rightarrow>
                 (Some (AddContext (Extern e)
                          ''failed to defer threadedBubbleMetadata on parent dir''), r1)
             | (parentDir, None) \<Rightarrow> (None, r1\<lparr>spawned := spawned r1 @ [parentDir]\<rparr>)))"

text \<open>
  \<open>managedBubbleMetadata\<close>. The result of the function is unnamed, so the value of
  \<open>return err\<close> is fixed before the deferred function runs and assigns to \<open>err\<close>. The
  calls of other goroutines on the table take effect before the deferred function
  takes the mutex.
\<close>

definition managedBubbleMetadata :: "Env \<Rightarrow> Renter \<Rightarrow> SiaPath \<Rightarrow> error option \<times> Renter" where
  "managedBubbleMetadata env r siaPath =
     (case managedBubbleNeeded r siaPath of
        ((needed, Some e), r1) \<Rightarrow>
          (Some (AddContext e ''error in checking if bubble is needed''), r1)
      | ((needed, None), r1) \<Rightarrow>
          if \<not> needed
          then (None, r1)
          else
            (case bubbleBody env r1 siaPath of
               (err, r2) \<Rightarrow>
                 (err,
                  snd (bubbleDeferred env
                         (r2\<lparr>bubbleUpdates := otherGoroutines env (bubbleUpdates r2)\<rparr>) siaPath))))"

section \<open>Notions used in the statements\<close>

text \<open>
  The invariant of the driver's use of the table: with no admitted run outstanding on
  \<open>p\<close> the entry is absent or \<open>bubbleInit\<close>; with one it is \<open>bubbleActive\<close> or
  \<open>bubblePending\<close>.
\<close>

definition owned :: "nat \<Rightarrow> Renter \<Rightarrow> SiaPath \<Rightarrow> bool" where
  "owned n r p =
     ((n = 0 \<and> (bubbleUpdates r p = None \<or> bubbleUpdates r p = Some bubbleInit)) \<or>
      (n = 1 \<and> (bubbleUpdates r p = Some bubbleActive \<or> bubbleUpdates r p = Some bubblePending)))"

text \<open>
  The file children of a directory that a calculation processes, in the words of the
  specification: the entries whose name carries the file extension, whose path can be
  joined and whose probe succeeds, each with the metadata that the probe returns.
\<close>

definition fileChild :: "Env \<Rightarrow> SiaPath \<Rightarrow> FileInfo \<Rightarrow> BubbledMetadata option" where
  "fileChild env siaPath fi =
     (if Ext (Name fi) = SiaFileExtension env
      then (case Join env siaPath (TrimSuffix (Name fi) (SiaFileExtension env)) of
              (fileSiaPath, Some e) \<Rightarrow> None
            | (fileSiaPath, None) \<Rightarrow>
                (case managedCalculateAndUpdateFileMetadata env fileSiaPath of
                   (fileMetadata, Some e) \<Rightarrow> None
                 | (fileMetadata, None) \<Rightarrow> Some fileMetadata))
      else None)"

definition fileChildren :: "Env \<Rightarrow> SiaPath \<Rightarrow> FileInfo list \<Rightarrow> BubbledMetadata list" where
  "fileChildren env siaPath fis = List.map_filter (fileChild env siaPath) fis"

text \<open>
  \<open>onlyDirs r r'\<close>: from \<open>r\<close> to \<open>r'\<close> nothing but the records of the directory store
  has changed.
\<close>

definition onlyDirs :: "Renter \<Rightarrow> Renter \<Rightarrow> bool" where
  "onlyDirs r r' =
     (bubbleUpdates r' = bubbleUpdates r \<and> persisted r' = persisted r \<and>
      spawned r' = spawned r \<and> repairNeeded r' = repairNeeded r \<and>
      stuckChunkFound r' = stuckChunkFound r)"

section \<open>Concrete tables and environments\<close>

text \<open>A renter with nothing in it, and one whose table holds every status.\<close>

definition emptyRenter :: Renter where
  "emptyRenter =
     \<lparr>bubbleUpdates = Map.empty, persisted = Map.empty, staticDirSet = Map.empty,
      spawned = [], repairNeeded = False, stuckChunkFound = False\<rparr>"

definition tableRenter :: Renter where
  "tableRenter =
     emptyRenter\<lparr>bubbleUpdates :=
       [''a'' \<mapsto> bubbleActive, ''b'' \<mapsto> bubblePending, ''c'' \<mapsto> bubbleInit,
        ''e'' \<mapsto> bubbleError]\<rparr>"

text \<open>
  An environment in which every collaborator succeeds and every directory is empty:
  the extension is \<open>.sia\<close>, the default health 0, the repair threshold a quarter, the
  root is the empty path, \<open>Dir\<close> drops the last element of a path and fails on the root.
  Every file of the file store answers like \<open>stuckFile\<close>: health a half, three stuck
  chunks, for which the probe returns \<open>xMetadata\<close>.
\<close>

definition parentOf :: "SiaPath \<Rightarrow> SiaPath" where
  "parentOf p = rev (drop 1 (dropWhile (\<lambda>c. c \<noteq> CHR ''/'') (rev p)))"

definition stuckFile :: SiaFile where
  "stuckFile =
     \<lparr>MarkAllHealthyChunksAsUnstuck = None, sfHealth = (1 / 2, 1 / 4, 3),
      UpdateLastHealthCheckTime = None, sfRedundancy = 2, sfLastHealthCheckTime = 900,
      sfModTime = 800, sfSize = 1024, UpdateCachedHealthMetadata = None\<rparr>"

definition xMetadata :: BubbledMetadata where
  "xMetadata =
     \<lparr>bmHealth = 1 / 2, bmLastHealthCheckTime = 900, bmModTime = 800, bmNumStuckChunks = 3,
      bmRedundancy = 2, bmSize = 1024, bmStuckHealth = 1 / 4\<rparr>"

definition subMetadata :: Metadata where
  "subMetadata =
     \<lparr>AggregateHealth = 7 / 8, AggregateNumFiles = 4, AggregateSize = 4096, Health = 3 / 4,
      LastHealthCheckTime = 850, MinRedundancy = 3 / 2, ModTime = 820, NumFiles = 2,
      NumStuckChunks = 2, NumSubDirs = 1, StuckHealth = 1 / 8\<rparr>"

definition newDirMetadata :: Metadata where
  "newDirMetadata = Metadata_zero\<lparr>ModTime := 990\<rparr>"

definition baseEnv :: Env where
  "baseEnv =
     \<lparr>SiaFileExtension = ''.sia'', DefaultDirHealth = 0, RemoteRepairDownloadThreshold = 1 / 4,
      IsRoot = (\<lambda>p. p = []),
      Dir = (\<lambda>p. if p = [] then ([], Some (Failure ''root'')) else (parentOf p, None)),
      Join = (\<lambda>p name. (if p = [] then name else p @ ''/'' @ name, None)),
      SiaDirSysPath = (\<lambda>p. ''/renter/'' @ p),
      ReadDir = (\<lambda>sys. ([], None)),
      Stat = (\<lambda>sys. (\<lparr>Name = sys, IsDir = True\<rparr>, None)),
      StopChan = (\<lambda>i. False),
      Now = (\<lambda>n. 1000 + int n),
      staticFileSet_Open = (\<lambda>p. (stuckFile, None)),
      OpenFault = (\<lambda>p. None),
      NewSiaDirAnswer = (\<lambda>p. (newDirMetadata, None)),
      UpdateMetadataAnswer = (\<lambda>p. None),
      saveAnswer = None,
      otherGoroutines = (\<lambda>m. m)\<rparr>"

text \<open>
  The directory \<open>a\<close> holds the file \<open>x.sia\<close>, the directory \<open>sub\<close> and a file that
  is neither; in \<open>treeRenter\<close> the directory store has a record for \<open>a/sub\<close> and none
  for \<open>a\<close>. \<open>afterX\<close> and \<open>afterSub\<close> are the metadata of the calculation of \<open>a\<close>
  after the first and after the second entry.
\<close>

definition treeListing :: "FileInfo list" where
  "treeListing =
     [\<lparr>Name = ''x.sia'', IsDir = False\<rparr>, \<lparr>Name = ''sub'', IsDir = True\<rparr>,
      \<lparr>Name = ''notes.txt'', IsDir = False\<rparr>]"

definition treeEnv :: Env where
  "treeEnv = baseEnv\<lparr>ReadDir := (\<lambda>sys. if sys = ''/renter/a'' then (treeListing, None) else ([], None))\<rparr>"

definition treeRenter :: Renter where
  "treeRenter = emptyRenter\<lparr>staticDirSet := [''a/sub'' \<mapsto> subMetadata]\<rparr>"

definition afterX :: Metadata where
  "afterX =
     \<lparr>AggregateHealth = 1 / 2, AggregateNumFiles = 1, AggregateSize = 1024, Health = 1 / 2,
      LastHealthCheckTime = 900, MinRedundancy = 2, ModTime = 800, NumFiles = 1,
      NumStuckChunks = 6, NumSubDirs = 0, StuckHealth = 1 / 4\<rparr>"

definition afterSub :: Metadata where
  "afterSub =
     \<lparr>AggregateHealth = 7 / 8, AggregateNumFiles = 5, AggregateSize = 5120, Health = 1 / 2,
      LastHealthCheckTime = 850, MinRedundancy = 3 / 2, ModTime = 820, NumFiles = 1,
      NumStuckChunks = 10, NumSubDirs = 1, StuckHealth = 1 / 4\<rparr>"

text \<open>
  Variations: the stop channel is closed from the second iteration on; every file
  fails to open; the save of the table fails; another goroutine asks for a bubble of
  \<open>a\<close> while the driver runs; reading any directory fails; the root holds the file
  \<open>x.sia\<close> and has a record.
\<close>

definition stopEnv :: Env where
  "stopEnv = treeEnv\<lparr>StopChan := (\<lambda>i. 1 \<le> i)\<rparr>"


definition saveFailEnv :: Env where
  "saveFailEnv = treeEnv\<lparr>saveAnswer := Some (Failure ''disk full'')\<rparr>"

definition pendingEnv :: Env where
  "pendingEnv = treeEnv\<lparr>otherGoroutines := (\<lambda>m. m(''a'' \<mapsto> bubblePending))\<rparr>"

definition readFailEnv :: Env where
  "readFailEnv = baseEnv\<lparr>ReadDir := (\<lambda>sys. ([], Some (Failure ''input/output error'')))\<rparr>"

definition rootEnv :: Env where
  "rootEnv =
     baseEnv\<lparr>ReadDir := (\<lambda>sys. if sys = ''/renter/''
                              then ([\<lparr>Name = ''x.sia'', IsDir = False\<rparr>], None) else ([], None))\<rparr>"

definition rootRenter :: Renter where
  "rootRenter = emptyRenter\<lparr>staticDirSet := [[] \<mapsto> subMetadata]\<rparr>"

section \<open>Properties of the coordinator\<close>

subsection \<open>The two operations on one entry\<close>

lemma needed_entry:
  "bubbleUpdates (snd (managedBubbleNeeded r q)) p =
     (if q = p
      then (case bubbleUpdates r p of
              None \<Rightarrow> Some bubbleActive
            | Some bubbleInit \<Rightarrow> Some bubbleActive
            | Some bubbleActive \<Rightarrow> Some bubblePending
            | Some bubblePending \<Rightarrow> Some bubblePending
            | Some bubbleError \<Rightarrow> Some bubbleError)
      else bubbleUpdates r p)"
  by (simp add: managedBubbleNeeded_def split: option.split bubbleStatus.split)

lemma needed_ret:
  "fst (managedBubbleNeeded r p) =
     (case bubbleUpdates r p of
        None \<Rightarrow> (True, None)
      | Some bubbleInit \<Rightarrow> (True, None)
      | Some bubbleActive \<Rightarrow> (False, None)
      | Some bubblePending \<Rightarrow> (False, None)
      | Some bubbleError \<Rightarrow> (False, Some invalidBubbleStatus))"
  by (simp add: managedBubbleNeeded_def split: option.split bubbleStatus.split)

lemma complete_entry:
  "bubbleUpdates (snd (managedCompleteBubbleUpdate a r q)) p =
     (if q = p
      then (case bubbleUpdates r p of
              None \<Rightarrow> None
            | Some bubbleInit \<Rightarrow> Some bubbleInit
            | Some bubbleActive \<Rightarrow> None
            | Some bubblePending \<Rightarrow> Some bubbleInit
            | Some bubbleError \<Rightarrow> Some bubbleError)
      else bubbleUpdates r p)"
  by (simp add: managedCompleteBubbleUpdate_def saveBubbleUpdates_def
      split: option.split bubbleStatus.split prod.split)

lemma complete_ret_invalid:
  "(fst (managedCompleteBubbleUpdate a r p) = Some invalidBubbleStatus) =
     (bubbleUpdates r p = Some bubbleInit \<or> bubbleUpdates r p = Some bubbleError)"
  by (auto simp add: managedCompleteBubbleUpdate_def saveBubbleUpdates_def invalidBubbleStatus_def
      split: option.split bubbleStatus.split prod.split)

lemma admissions_Nil: "admissions p r [] = 0"
  by (simp add: admissions_def)

lemma admissions_Cons:
  "admissions p r (c # cs) =
     (if admitted p (c, fst (step r c)) then 1 else 0) + admissions p (snd (step r c)) cs"
  by (simp add: admissions_def split: prod.split)

lemma step_Needed_entry:
  "bubbleUpdates (snd (step r (Needed q))) p = bubbleUpdates (snd (managedBubbleNeeded r q)) p"
  by (simp split: prod.split)

lemma step_Complete_state:
  "snd (step r (Complete q a)) = snd (managedCompleteBubbleUpdate a r q)"
  by (simp split: prod.split)

lemma admitted_Needed:
  "admitted p (Needed q, fst (step r (Needed q))) = (q = p \<and> fst (fst (managedBubbleNeeded r q)))"
  by (simp split: prod.split)

lemma busy_no_admission:
  "\<not> (\<exists>c \<in> set seg. isComplete p c) \<Longrightarrow>
   bubbleUpdates r p \<in> {Some bubbleActive, Some bubblePending, Some bubbleError} \<Longrightarrow>
   admissions p r seg = 0"
proof (induction seg arbitrary: r)
  case Nil
  then show ?case by (simp add: admissions_Nil)
next
  case (Cons c cs)
  show ?case
  proof (cases c)
    case (Needed q)
    have "bubbleUpdates (snd (step r c)) p \<in> {Some bubbleActive, Some bubblePending, Some bubbleError}"
      using Cons.prems(2) unfolding Needed step_Needed_entry needed_entry by auto
    moreover have "\<not> admitted p (c, fst (step r c))"
      using Cons.prems(2) unfolding Needed admitted_Needed by (auto simp: needed_ret)
    ultimately show ?thesis
      using Cons.IH[of "snd (step r c)"] Cons.prems(1) by (simp add: admissions_Cons)
  next
    case (Complete q a)
    then have "q \<noteq> p" using Cons.prems(1) by auto
    then have "bubbleUpdates (snd (step r c)) p = bubbleUpdates r p"
      unfolding Complete step_Complete_state by (simp add: complete_entry)
    then show ?thesis
      using Cons.IH[of "snd (step r c)"] Cons.prems unfolding Complete
      by (simp add: admissions_Cons)
  qed
qed

lemma segment_admissions:
  "\<not> (\<exists>c \<in> set seg. isComplete p c) \<Longrightarrow> admissions p r seg \<le> 1"
proof (induction seg arbitrary: r)
  case Nil
  then show ?case by (simp add: admissions_Nil)
next
  case (Cons c cs)
  show ?case
  proof (cases c)
    case (Needed q)
    show ?thesis
    proof (cases "admitted p (c, fst (step r c))")
      case True
      then have "q = p" and "fst (fst (managedBubbleNeeded r q))"
        unfolding Needed admitted_Needed by auto
      then have "bubbleUpdates (snd (step r c)) p = Some bubbleActive"
        unfolding Needed step_Needed_entry needed_entry
        by (auto simp: needed_ret split: option.splits bubbleStatus.splits)
      then have "admissions p (snd (step r c)) cs = 0"
        using busy_no_admission[of cs p "snd (step r c)"] Cons.prems by simp
      then show ?thesis by (simp add: admissions_Cons)
    next
      case False
      then show ?thesis
        using Cons.IH[of "snd (step r c)"] Cons.prems by (simp add: admissions_Cons)
    qed
  next
    case (Complete q a)
    then show ?thesis
      using Cons.IH[of "snd (step r c)"] Cons.prems by (simp add: admissions_Cons)
  qed
qed

lemma snd_run_Cons: "snd (run r (c # cs)) = snd (run (snd (step r c)) cs)"
  by (simp split: prod.split)

lemma step_Needed_state: "snd (step r (Needed q)) = snd (managedBubbleNeeded r q)"
  by (simp split: prod.split)

lemma step_Needed_ret:
  "fst (step r (Needed q)) = NeededRet (fst (fst (managedBubbleNeeded r q))) (snd (fst (managedBubbleNeeded r q)))"
  by (simp split: prod.split)

lemma step_Complete_ret:
  "fst (step r (Complete q a)) = CompleteRet (fst (managedCompleteBubbleUpdate a r q))"
  by (simp split: prod.split)

subsection \<open>Coalescing\<close>

text \<open>
  Claim C3. Take any sequence of \<open>managedBubbleNeeded\<close> and
  \<open>managedCompleteBubbleUpdate\<close> calls \<open>pre\<close> from any table \<open>r0\<close> (in particular one
  without an entry for \<open>p\<close>), and let \<open>seg\<close> be calls that follow it with no
  \<open>managedCompleteBubbleUpdate\<close> on \<open>p\<close> among them, as between two consecutive
  completions of \<open>p\<close>. Then at most one \<open>managedBubbleNeeded\<close> call on \<open>p\<close> in \<open>seg\<close>
  returns true. In every state, \<open>managedBubbleNeeded\<close> returns true exactly when the
  entry is absent or \<open>bubbleInit\<close>, and the entry is \<open>bubbleActive\<close> afterwards.
\<close>

theorem coordinator_coalescing:
  "(\<not> (\<exists>c \<in> set seg. isComplete p c) \<longrightarrow> admissions p (snd (run r0 pre)) seg \<le> 1) \<and>
   (fst (fst (managedBubbleNeeded r p)) =
      (bubbleUpdates r p = None \<or> bubbleUpdates r p = Some bubbleInit)) \<and>
   (fst (fst (managedBubbleNeeded r p)) \<longrightarrow>
      bubbleUpdates (snd (managedBubbleNeeded r p)) p = Some bubbleActive)"
proof -
  have "fst (fst (managedBubbleNeeded r p)) =
      (bubbleUpdates r p = None \<or> bubbleUpdates r p = Some bubbleInit)"
    by (simp add: needed_ret split: option.split bubbleStatus.split)
  moreover have "fst (fst (managedBubbleNeeded r p)) \<longrightarrow>
      bubbleUpdates (snd (managedBubbleNeeded r p)) p = Some bubbleActive"
    by (simp add: needed_ret needed_entry split: option.split bubbleStatus.split)
  ultimately show ?thesis using segment_admissions[of seg p] by blast
qed

theorem coordinator_coalescing_witness:
  "\<not> (\<exists>c \<in> set [Needed ''a'', Needed ''b'', Needed ''a'']. isComplete ''a'' c) \<and>
   admissions ''a'' (snd (run emptyRenter [Needed ''a'', Complete ''a'' None]))
     [Needed ''a'', Needed ''b'', Needed ''a''] \<le> 1 \<and>
   fst (fst (managedBubbleNeeded emptyRenter ''a'')) \<and>
   bubbleUpdates (snd (managedBubbleNeeded emptyRenter ''a'')) ''a'' = Some bubbleActive"
  using coordinator_coalescing[where seg = "[Needed ''a'', Needed ''b'', Needed ''a'']"
      and p = "''a''" and ?r0.0 = emptyRenter and pre = "[Needed ''a'', Complete ''a'' None]"
      and r = emptyRenter]
  by (simp add: emptyRenter_def)

subsection \<open>The error status\<close>

lemma never_error_step:
  "bubbleUpdates r p \<noteq> Some bubbleError \<Longrightarrow> bubbleUpdates (snd (step r c)) p \<noteq> Some bubbleError"
proof (cases c)
  case (Needed q)
  assume "bubbleUpdates r p \<noteq> Some bubbleError"
  then show ?thesis unfolding Needed step_Needed_state needed_entry
    by (simp split: option.split bubbleStatus.split)
next
  case (Complete q a)
  assume "bubbleUpdates r p \<noteq> Some bubbleError"
  then show ?thesis unfolding Complete step_Complete_state complete_entry
    by (simp split: option.split bubbleStatus.split)
qed

lemma never_error_run:
  "bubbleUpdates r p \<noteq> Some bubbleError \<Longrightarrow> bubbleUpdates (snd (run r cs)) p \<noteq> Some bubbleError"
proof (induction cs arbitrary: r)
  case Nil
  then show ?case by simp
next
  case (Cons c cs)
  then show ?case unfolding snd_run_Cons using never_error_step by blast
qed

lemma owned_Needed:
  "owned n r p \<Longrightarrow>
   owned (if q = p \<and> fst (fst (managedBubbleNeeded r q)) then Suc n else n)
     (snd (managedBubbleNeeded r q)) p"
  unfolding owned_def needed_entry
  by (auto simp: needed_ret split: option.splits bubbleStatus.splits)

lemma owned_Complete_same:
  "owned n r p \<Longrightarrow> 0 < n \<Longrightarrow> owned (n - 1) (snd (managedCompleteBubbleUpdate a r p)) p"
  unfolding owned_def complete_entry
  by (auto split: option.splits bubbleStatus.splits)

lemma owned_Complete_other:
  "owned n r p \<Longrightarrow> q \<noteq> p \<Longrightarrow> owned n (snd (managedCompleteBubbleUpdate a r q)) p"
  unfolding owned_def complete_entry by simp

lemma protocol_complete_busy:
  "driverProtocol p n r (cs @ [Complete p a]) \<Longrightarrow> owned n r p \<Longrightarrow>
   bubbleUpdates (snd (run r cs)) p = Some bubbleActive \<or>
   bubbleUpdates (snd (run r cs)) p = Some bubblePending"
proof (induction cs arbitrary: n r)
  case Nil
  then show ?case by (auto simp: owned_def split: if_splits)
next
  case (Cons c cs)
  show ?case
  proof (cases c)
    case (Needed q)
    obtain b err r' where nd: "managedBubbleNeeded r q = ((b, err), r')"
      by (metis prod.exhaust)
    have "driverProtocol p (if q = p \<and> b then Suc n else n) r' (cs @ [Complete p a])"
      using Cons.prems(1) unfolding Needed by (simp add: nd)
    moreover have "owned (if q = p \<and> b then Suc n else n) r' p"
      using owned_Needed[OF Cons.prems(2), of q] by (simp add: nd)
    ultimately show ?thesis
      using Cons.IH unfolding Needed snd_run_Cons step_Needed_state by (simp add: nd)
  next
    case (Complete q a')
    show ?thesis
    proof (cases "q = p")
      case True
      with Cons.prems(1) have pos: "0 < n"
        and rest: "driverProtocol p (n - 1) (snd (managedCompleteBubbleUpdate a' r p)) (cs @ [Complete p a])"
        unfolding Complete by auto
      from Cons.IH[OF rest owned_Complete_same[OF Cons.prems(2) pos]]
      show ?thesis unfolding Complete snd_run_Cons step_Complete_state True .
    next
      case False
      with Cons.prems(1) have
        rest: "driverProtocol p n (snd (managedCompleteBubbleUpdate a' r q)) (cs @ [Complete p a])"
        unfolding Complete by auto
      from Cons.IH[OF rest owned_Complete_other[OF Cons.prems(2) False]]
      show ?thesis unfolding Complete snd_run_Cons step_Complete_state .
    qed
  qed
qed

text \<open>
  Claim C10, as stated, fails: from the empty table the calls needed, needed,
  complete, complete on one path end in the invalid-status branch of
  \<open>managedCompleteBubbleUpdate\<close>, which the status \<open>bubbleInit\<close> takes as well as
  \<open>bubbleError\<close>.
\<close>

theorem invalid_status_counterexample:
  "fst (run emptyRenter [Needed ''a'', Needed ''a'', Complete ''a'' None, Complete ''a'' None])
     = [NeededRet True None, NeededRet False None, CompleteRet None,
        CompleteRet (Some invalidBubbleStatus)]"
  by (simp add: emptyRenter_def managedBubbleNeeded_def managedCompleteBubbleUpdate_def
      saveBubbleUpdates_def)

text \<open>
  Claim C10, amended. From a table without an entry for \<open>p\<close>, after any sequence
  \<open>cs\<close> of calls: the entry of \<open>p\<close> is not \<open>bubbleError\<close>; a \<open>managedBubbleNeeded\<close> call
  on \<open>p\<close> does not end in the invalid-status branch; a \<open>managedCompleteBubbleUpdate\<close>
  call on \<open>p\<close> ends in it exactly when the entry is \<open>bubbleInit\<close>; and it does not when
  the sequence and this call follow the driver's protocol, in which every completion
  of \<open>p\<close> belongs to an admitted run on \<open>p\<close> that has not completed yet.
\<close>

theorem invalid_status_reachability:
  "bubbleUpdates r0 p = None \<Longrightarrow>
   bubbleUpdates (snd (run r0 cs)) p \<noteq> Some bubbleError \<and>
   \<not> invalidRet (fst (step (snd (run r0 cs)) (Needed p))) \<and>
   (invalidRet (fst (step (snd (run r0 cs)) (Complete p a))) =
      (bubbleUpdates (snd (run r0 cs)) p = Some bubbleInit)) \<and>
   (driverProtocol p 0 r0 (cs @ [Complete p a]) \<longrightarrow>
      \<not> invalidRet (fst (step (snd (run r0 cs)) (Complete p a))))"
proof -
  assume absent: "bubbleUpdates r0 p = None"
  let ?r = "snd (run r0 cs)"
  have ne: "bubbleUpdates ?r p \<noteq> Some bubbleError"
    using never_error_run[of r0 p cs] absent by simp
  have n: "\<not> invalidRet (fst (step ?r (Needed p)))"
    using ne unfolding step_Needed_ret
    by (simp add: needed_ret split: option.split bubbleStatus.split)
  have c: "invalidRet (fst (step ?r (Complete p a))) = (bubbleUpdates ?r p = Some bubbleInit)"
    using ne unfolding step_Complete_ret by (simp add: complete_ret_invalid)
  have "owned 0 r0 p" using absent by (simp add: owned_def)
  then have "driverProtocol p 0 r0 (cs @ [Complete p a]) \<longrightarrow>
      \<not> invalidRet (fst (step ?r (Complete p a)))"
    using protocol_complete_busy[of p 0 r0 cs a] c by auto
  with ne n c show ?thesis by blast
qed

theorem invalid_status_reachability_witness:
  "bubbleUpdates emptyRenter ''a'' = None \<and>
   driverProtocol ''a'' 0 emptyRenter [Needed ''a'', Needed ''a'', Complete ''a'' None] \<and>
   bubbleUpdates (snd (run emptyRenter [Needed ''a'', Needed ''a''])) ''a'' \<noteq> Some bubbleError \<and>
   \<not> invalidRet (fst (step (snd (run emptyRenter [Needed ''a'', Needed ''a''])) (Needed ''a''))) \<and>
   \<not> invalidRet (fst (step (snd (run emptyRenter [Needed ''a'', Needed ''a'']))
                   (Complete ''a'' None)))"
  using invalid_status_reachability[where ?r0.0 = emptyRenter and p = "''a''"
      and cs = "[Needed ''a'', Needed ''a'']" and a = None]
  by (simp add: emptyRenter_def managedBubbleNeeded_def managedCompleteBubbleUpdate_def)

subsection \<open>Completion\<close>

text \<open>
  Claim C6. \<open>managedCompleteBubbleUpdate\<close> on a path, by the status it finds: absent,
  nothing changes and the result is nil; \<open>bubbleActive\<close>, the entry is deleted and the
  table is saved, the result being what the save answered; \<open>bubblePending\<close>, the entry
  becomes \<open>bubbleInit\<close>, the table is saved and a run of the driver on the path is
  started; \<open>bubbleInit\<close> or \<open>bubbleError\<close>, the invalid-status error and no change.
\<close>

theorem managedCompleteBubbleUpdate_cases:
  "(bubbleUpdates r p = None \<longrightarrow> managedCompleteBubbleUpdate a r p = (None, r)) \<and>
   (bubbleUpdates r p = Some bubbleActive \<longrightarrow>
      managedCompleteBubbleUpdate a r p =
        (map_option Extern a,
         r\<lparr>bubbleUpdates := (bubbleUpdates r)(p := None),
           persisted := (if a = None then (bubbleUpdates r)(p := None) else persisted r)\<rparr>)) \<and>
   (bubbleUpdates r p = Some bubblePending \<longrightarrow>
      managedCompleteBubbleUpdate a r p =
        (map_option Extern a,
         r\<lparr>bubbleUpdates := (bubbleUpdates r)(p \<mapsto> bubbleInit),
           persisted := (if a = None then (bubbleUpdates r)(p \<mapsto> bubbleInit) else persisted r),
           spawned := spawned r @ [p]\<rparr>)) \<and>
   (bubbleUpdates r p = Some bubbleInit \<or> bubbleUpdates r p = Some bubbleError \<longrightarrow>
      managedCompleteBubbleUpdate a r p = (Some invalidBubbleStatus, r))"
  by (cases a) (auto simp: managedCompleteBubbleUpdate_def saveBubbleUpdates_def)

theorem managedCompleteBubbleUpdate_cases_witness:
  "managedCompleteBubbleUpdate None tableRenter ''d'' = (None, tableRenter) \<and>
   managedCompleteBubbleUpdate None tableRenter ''a'' =
     (None, tableRenter\<lparr>bubbleUpdates := [''b'' \<mapsto> bubblePending, ''c'' \<mapsto> bubbleInit, ''e'' \<mapsto> bubbleError],
                   persisted := [''b'' \<mapsto> bubblePending, ''c'' \<mapsto> bubbleInit, ''e'' \<mapsto> bubbleError]\<rparr>) \<and>
   managedCompleteBubbleUpdate (Some (Failure ''disk full'')) tableRenter ''b'' =
     (Some (Extern (Failure ''disk full'')),
      tableRenter\<lparr>bubbleUpdates :=
                    [''a'' \<mapsto> bubbleActive, ''b'' \<mapsto> bubbleInit, ''c'' \<mapsto> bubbleInit,
                     ''e'' \<mapsto> bubbleError],
                  spawned := [''b'']\<rparr>) \<and>
   managedCompleteBubbleUpdate None tableRenter ''c'' = (Some invalidBubbleStatus, tableRenter) \<and>
   managedCompleteBubbleUpdate None tableRenter ''e'' = (Some invalidBubbleStatus, tableRenter)"
  using managedCompleteBubbleUpdate_cases[of tableRenter "''d''" None]
    managedCompleteBubbleUpdate_cases[of tableRenter "''a''" None]
    managedCompleteBubbleUpdate_cases[of tableRenter "''b''" "Some (Failure ''disk full'')"]
    managedCompleteBubbleUpdate_cases[of tableRenter "''c''" None]
    managedCompleteBubbleUpdate_cases[of tableRenter "''e''" None]
  by (simp add: tableRenter_def emptyRenter_def fun_upd_def fun_eq_iff)

section \<open>Properties of the calculation\<close>

subsection \<open>One entry, and the loop\<close>

lemma calculateEntry_file:
  "Ext (Name fi) = SiaFileExtension env \<Longrightarrow>
   Join env p (TrimSuffix (Name fi) (SiaFileExtension env)) = (q, None) \<Longrightarrow>
   managedCalculateAndUpdateFileMetadata env q = (fm, None) \<Longrightarrow>
   calculateEntry env p fi m r =
     (Inr (updateFields fm (bmHealth fm) (bmStuckHealth fm) (bmRedundancy fm)
             (bmNumStuckChunks fm) (bmLastHealthCheckTime fm) (bmModTime fm)
             (m\<lparr>NumFiles := NumFiles m + 1, AggregateNumFiles := AggregateNumFiles m + 1,
                AggregateSize := AggregateSize m + bmSize fm\<rparr>)), r)"
  by (simp add: calculateEntry_def)


lemma calculateEntry_dir:
  "Ext (Name fi) \<noteq> SiaFileExtension env \<Longrightarrow> IsDir fi \<Longrightarrow>
   Join env p (Name fi) = (q, None) \<Longrightarrow>
   managedDirectoryMetadata env r q = ((dm, None), r') \<Longrightarrow>
   calculateEntry env p fi m r =
     (Inr (updateFields BubbledMetadata_zero (max (AggregateHealth dm) (Health dm))
             (StuckHealth dm) (MinRedundancy dm) (NumStuckChunks dm)
             (LastHealthCheckTime dm) (ModTime dm)
             (m\<lparr>AggregateNumFiles := AggregateNumFiles m + AggregateNumFiles dm,
                AggregateSize := AggregateSize m + AggregateSize dm,
                NumSubDirs := NumSubDirs m + 1\<rparr>)), r')"
  by (simp add: calculateEntry_def)


lemma calculateEntry_ignored:
  "Ext (Name fi) \<noteq> SiaFileExtension env \<Longrightarrow> \<not> IsDir fi \<Longrightarrow>
   calculateEntry env p fi m r = (Inr m, r)"
  by (simp add: calculateEntry_def)

lemma calculateEntry_Inl_error:
  "calculateEntry env p fi m r = (Inl ret, r') \<Longrightarrow> snd ret \<noteq> None"
  by (auto simp: calculateEntry_def Let_def split: if_splits prod.splits option.splits)

lemma calculateLoop_append:
  "calculateLoop env p i (xs @ ys) m r =
     (case calculateLoop env p i xs m r of
        (Inl ret, r') \<Rightarrow> (Inl ret, r')
      | (Inr m', r') \<Rightarrow> calculateLoop env p (i + length xs) ys m' r')"
  by (induction xs arbitrary: i m r) (auto split: prod.splits sum.splits)

lemma calculateLoop_Inl_nil:
  "calculateLoop env p i fis m r = (Inl (md, None), r') \<Longrightarrow> \<exists>j<length fis. StopChan env (i + j)"
proof (induction fis arbitrary: i m r)
  case Nil
  then show ?case by simp
next
  case (Cons fi fis)
  show ?case
  proof (cases "StopChan env i")
    case True
    then show ?thesis by (intro exI[of _ 0]) simp
  next
    case False
    with Cons.prems obtain m1 r1 where
      l: "calculateLoop env p (Suc i) fis m1 r1 = (Inl (md, None), r')"
      using calculateEntry_Inl_error[of env p fi m r]
      by (fastforce split: prod.splits sum.splits)
    from Cons.IH[OF l] obtain j where "j < length fis" "StopChan env (Suc i + j)" by blast
    then show ?thesis by (intro exI[of _ "Suc j"]) simp
  qed
qed

subsection \<open>The calculation of the directory \<open>a\<close>\<close>

lemma MaxFloat64_large: "1000000 < MaxFloat64"
proof -
  have "(2::real) ^ 20 \<le> 2 ^ 971" by (rule power_increasing) simp_all
  moreover have "(1::real) \<le> 2 ^ 53 - 1" by simp
  ultimately have "1 * (2::real) ^ 20 \<le> (2 ^ 53 - 1) * 2 ^ 971"
    by (intro mult_mono) simp_all
  then show ?thesis by (simp add: MaxFloat64_def)
qed

lemma Ext_x: "Ext ''x.sia'' = ''.sia''"
  by (simp add: Ext_def)
lemma Ext_sub: "Ext ''sub'' = []"
  by (simp add: Ext_def)
lemma Ext_notes: "Ext ''notes.txt'' = ''.txt''"
  by (simp add: Ext_def)
lemma Trim_x: "TrimSuffix ''x.sia'' ''.sia'' = ''x''"
  by (simp add: TrimSuffix_def)

lemma baseEnv_fields:
  "SiaFileExtension baseEnv = ''.sia''"
  "DefaultDirHealth baseEnv = 0"
  "RemoteRepairDownloadThreshold baseEnv = 1 / 4"
  "IsRoot baseEnv p = (p = [])"
  "Dir baseEnv p = (if p = [] then ([], Some (Failure ''root'')) else (parentOf p, None))"
  "Join baseEnv p name = (if p = [] then name else p @ ''/'' @ name, None)"
  "SiaDirSysPath baseEnv p = ''/renter/'' @ p"
  "ReadDir baseEnv sys = ([], None)"
  "Stat baseEnv sys = (\<lparr>Name = sys, IsDir = True\<rparr>, None)"
  "StopChan baseEnv i = False"
  "Now baseEnv n = 1000 + int n"
  "staticFileSet_Open baseEnv p = (stuckFile, None)"
  "OpenFault baseEnv p = None"
  "NewSiaDirAnswer baseEnv p = (newDirMetadata, None)"
  "UpdateMetadataAnswer baseEnv p = None"
  "saveAnswer baseEnv = None"
  "otherGoroutines baseEnv m = m"
  by (simp_all add: baseEnv_def)

lemma treeEnv_fields:
  "SiaFileExtension treeEnv = ''.sia''"
  "DefaultDirHealth treeEnv = 0"
  "RemoteRepairDownloadThreshold treeEnv = 1 / 4"
  "IsRoot treeEnv p = (p = [])"
  "Dir treeEnv p = (if p = [] then ([], Some (Failure ''root'')) else (parentOf p, None))"
  "Join treeEnv p name = (if p = [] then name else p @ ''/'' @ name, None)"
  "SiaDirSysPath treeEnv p = ''/renter/'' @ p"
  "ReadDir treeEnv sys = (if sys = ''/renter/a'' then (treeListing, None) else ([], None))"
  "Stat treeEnv sys = (\<lparr>Name = sys, IsDir = True\<rparr>, None)"
  "StopChan treeEnv i = False"
  "Now treeEnv n = 1000 + int n"
  "staticFileSet_Open treeEnv p = (stuckFile, None)"
  "OpenFault treeEnv p = None"
  "NewSiaDirAnswer treeEnv p = (newDirMetadata, None)"
  "UpdateMetadataAnswer treeEnv p = None"
  "saveAnswer treeEnv = None"
  "otherGoroutines treeEnv m = m"
  by (simp_all add: treeEnv_def baseEnv_fields)

lemma stopEnv_fields:
  "SiaFileExtension stopEnv = ''.sia''"
  "DefaultDirHealth stopEnv = 0"
  "Join stopEnv p name = (if p = [] then name else p @ ''/'' @ name, None)"
  "SiaDirSysPath stopEnv p = ''/renter/'' @ p"
  "ReadDir stopEnv sys = (if sys = ''/renter/a'' then (treeListing, None) else ([], None))"
  "StopChan stopEnv i = (1 \<le> i)"
  "Now stopEnv n = 1000 + int n"
  "staticFileSet_Open stopEnv p = (stuckFile, None)"
  by (simp_all add: stopEnv_def treeEnv_fields)


lemma probe_stuckFile:
  "staticFileSet_Open env q = (stuckFile, None) \<Longrightarrow>
   managedCalculateAndUpdateFileMetadata env q = (xMetadata, None)"
  by (simp add: managedCalculateAndUpdateFileMetadata_def stuckFile_def xMetadata_def)


lemma fold_x:
  "DefaultDirHealth env = 0 \<Longrightarrow> Now env 0 = 1000 \<Longrightarrow>
   updateFields xMetadata (bmHealth xMetadata) (bmStuckHealth xMetadata) (bmRedundancy xMetadata)
     (bmNumStuckChunks xMetadata) (bmLastHealthCheckTime xMetadata) (bmModTime xMetadata)
     ((defaultMetadata env)\<lparr>NumFiles := NumFiles (defaultMetadata env) + 1,
        AggregateNumFiles := AggregateNumFiles (defaultMetadata env) + 1,
        AggregateSize := AggregateSize (defaultMetadata env) + bmSize xMetadata\<rparr>) = afterX"
  using MaxFloat64_large
  by (simp add: updateFields_def defaultMetadata_def xMetadata_def afterX_def)

lemma fold_sub:
  "updateFields BubbledMetadata_zero (max (AggregateHealth subMetadata) (Health subMetadata))
     (StuckHealth subMetadata) (MinRedundancy subMetadata) (NumStuckChunks subMetadata)
     (LastHealthCheckTime subMetadata) (ModTime subMetadata)
     (afterX\<lparr>AggregateNumFiles := AggregateNumFiles afterX + AggregateNumFiles subMetadata,
        AggregateSize := AggregateSize afterX + AggregateSize subMetadata,
        NumSubDirs := NumSubDirs afterX + 1\<rparr>) = afterSub"
  by (simp add: updateFields_def subMetadata_def afterX_def afterSub_def BubbledMetadata_zero_def)

lemma sanity_afterX: "sanityChecks env afterX = afterX"
  using MaxFloat64_large by (simp add: sanityChecks_def afterX_def)

lemma sanity_afterSub: "sanityChecks env afterSub = afterSub"
  using MaxFloat64_large by (simp add: sanityChecks_def afterSub_def)

lemma read_sub:
  "Stat env (SiaDirSysPath env ''a/sub'') = (\<lparr>Name = n, IsDir = True\<rparr>, None) \<Longrightarrow>
   OpenFault env ''a/sub'' = None \<Longrightarrow>
   managedDirectoryMetadata env treeRenter ''a/sub'' = ((subMetadata, None), treeRenter)"
  by (simp add: managedDirectoryMetadata_def staticDirSet_Open_def directoryMetadataResult_def
      treeRenter_def)


lemma entry_x:
  assumes "SiaFileExtension env = ''.sia''" and "Join env p ''x'' = (q, None)"
    and "staticFileSet_Open env q = (stuckFile, None)"
    and "DefaultDirHealth env = 0" and "Now env 0 = 1000"
  shows "calculateEntry env p \<lparr>Name = ''x.sia'', IsDir = False\<rparr> (defaultMetadata env) r
           = (Inr afterX, r)"
proof -
  have "calculateEntry env p \<lparr>Name = ''x.sia'', IsDir = False\<rparr> (defaultMetadata env) r =
     (Inr (updateFields xMetadata (bmHealth xMetadata) (bmStuckHealth xMetadata)
             (bmRedundancy xMetadata) (bmNumStuckChunks xMetadata)
             (bmLastHealthCheckTime xMetadata) (bmModTime xMetadata)
             ((defaultMetadata env)\<lparr>NumFiles := NumFiles (defaultMetadata env) + 1,
                AggregateNumFiles := AggregateNumFiles (defaultMetadata env) + 1,
                AggregateSize := AggregateSize (defaultMetadata env) + bmSize xMetadata\<rparr>)), r)"
    by (rule calculateEntry_file[where q = q])
      (simp_all add: assms Ext_x Trim_x probe_stuckFile)
  then show ?thesis by (simp only: fold_x[OF assms(4,5)])
qed

lemma entry_sub:
  assumes "SiaFileExtension env = ''.sia''" and "Join env ''a'' ''sub'' = (''a/sub'', None)"
    and "Stat env (SiaDirSysPath env ''a/sub'') = (\<lparr>Name = n, IsDir = True\<rparr>, None)"
    and "OpenFault env ''a/sub'' = None"
  shows "calculateEntry env ''a'' \<lparr>Name = ''sub'', IsDir = True\<rparr> afterX treeRenter
           = (Inr afterSub, treeRenter)"
proof -
  have "calculateEntry env ''a'' \<lparr>Name = ''sub'', IsDir = True\<rparr> afterX treeRenter =
     (Inr (updateFields BubbledMetadata_zero (max (AggregateHealth subMetadata) (Health subMetadata))
             (StuckHealth subMetadata) (MinRedundancy subMetadata) (NumStuckChunks subMetadata)
             (LastHealthCheckTime subMetadata) (ModTime subMetadata)
             (afterX\<lparr>AggregateNumFiles := AggregateNumFiles afterX + AggregateNumFiles subMetadata,
                AggregateSize := AggregateSize afterX + AggregateSize subMetadata,
                NumSubDirs := NumSubDirs afterX + 1\<rparr>)), treeRenter)"
    by (rule calculateEntry_dir[where q = "''a/sub''"])
      (simp_all add: assms(1,2) Ext_sub read_sub[OF assms(3,4)])
  then show ?thesis by (simp only: fold_sub)
qed

lemma entry_notes:
  assumes "SiaFileExtension env = ''.sia''"
  shows "calculateEntry env p \<lparr>Name = ''notes.txt'', IsDir = False\<rparr> m r = (Inr m, r)"
  by (rule calculateEntry_ignored) (simp_all add: assms Ext_notes)

lemma tree_loop:
  "calculateLoop treeEnv ''a'' 0 treeListing (defaultMetadata treeEnv) treeRenter
     = (Inr afterSub, treeRenter)"
  by (simp add: treeListing_def treeEnv_fields entry_x entry_sub entry_notes)

lemma tree_calculation:
  "managedCalculateDirectoryMetadata treeEnv treeRenter ''a'' = ((afterSub, None), treeRenter)"
  by (simp add: managedCalculateDirectoryMetadata_def treeEnv_fields tree_loop sanity_afterSub)

subsection \<open>Health\<close>

lemma Health_updateFields:
  "Health (updateFields fm ah sh red n lh mt m) = (if bmHealth fm > Health m then bmHealth fm else Health m)"
  by (simp add: updateFields_def Let_def)

lemma calculateEntry_Health:
  assumes "calculateEntry env p fi m r = (Inr m', r')" and "0 \<le> Health m"
  shows "Health m' = (case fileChild env p fi of None \<Rightarrow> Health m | Some fm \<Rightarrow> max (Health m) (bmHealth fm))"
  using assms
  by (auto simp: calculateEntry_def fileChild_def Let_def Health_updateFields BubbledMetadata_zero_def
      split: if_splits prod.splits option.splits)

lemma calculateLoop_Health:
  "calculateLoop env p i fis m r = (Inr m', r') \<Longrightarrow> 0 \<le> Health m \<Longrightarrow>
   Health m' = fold max (map bmHealth (fileChildren env p fis)) (Health m)"
proof (induction fis arbitrary: i m r)
  case Nil
  then show ?case by (simp add: fileChildren_def)
next
  case (Cons fi fis)
  from Cons.prems(1) obtain m1 r1 where
    e: "calculateEntry env p fi m r = (Inr m1, r1)" and
    l: "calculateLoop env p (Suc i) fis m1 r1 = (Inr m', r')"
    by (auto split: if_splits prod.splits sum.splits)
  have h1: "Health m1 = (case fileChild env p fi of None \<Rightarrow> Health m | Some fm \<Rightarrow> max (Health m) (bmHealth fm))"
    using calculateEntry_Health[OF e Cons.prems(2)] .
  then have "0 \<le> Health m1" using Cons.prems(2) by (auto split: option.splits)
  from Cons.IH[OF l this] h1 show ?case
    by (auto simp: fileChildren_def max.commute split: option.splits)
qed

lemma Health_sanityChecks: "Health (sanityChecks env m) = Health m"
  by (simp add: sanityChecks_def Let_def)

text \<open>
  A calculation that reaches the end of the loop: the entries are read, the stop
  channel is not found closed at any entry, and the result carries no error. With a
  default health that is not negative (0 is the perfect health), the \<open>Health\<close> of
  the result is the maximum of \<open>DefaultDirHealth\<close> and the healths of the file children.
  The subdirectories do not occur in it: their \<open>Health\<close> and \<open>AggregateHealth\<close> only
  reach \<open>AggregateHealth\<close>.
\<close>

lemma health_from_file_children:
  assumes "0 \<le> DefaultDirHealth env"
    and "ReadDir env (SiaDirSysPath env p) = (fis, None)"
    and "\<forall>i<length fis. \<not> StopChan env i"
    and "managedCalculateDirectoryMetadata env r p = ((md, None), r')"
  shows "Health md =
           Max (insert (DefaultDirHealth env) (bmHealth ` set (fileChildren env p fis)))"
proof -
  from assms(2,4) consider
    (stop) "calculateLoop env p 0 fis (defaultMetadata env) r = (Inl (md, None), r')"
    | (finished) m where "calculateLoop env p 0 fis (defaultMetadata env) r = (Inr m, r')"
        "md = sanityChecks env m"
    by (auto simp: managedCalculateDirectoryMetadata_def Let_def split: prod.splits sum.splits)
  then show ?thesis
  proof cases
    case stop
    from calculateLoop_Inl_nil[OF stop] assms(3) show ?thesis by auto
  next
    case finished
    have "Health (defaultMetadata env) = DefaultDirHealth env"
      by (simp add: defaultMetadata_def)
    with calculateLoop_Health[OF finished(1)] assms(1)
    have "Health m = fold max (map bmHealth (fileChildren env p fis)) (DefaultDirHealth env)"
      by simp
    also have "\<dots> = Max (set (DefaultDirHealth env # map bmHealth (fileChildren env p fis)))"
      by (simp only: Max.set_eq_fold)
    finally show ?thesis using finished(2) by (simp add: Health_sanityChecks)
  qed
qed

lemma health_from_file_children_at_a:
  "0 \<le> DefaultDirHealth treeEnv \<and>
   ReadDir treeEnv (SiaDirSysPath treeEnv ''a'') = (treeListing, None) \<and>
   list_all (\<lambda>i. \<not> StopChan treeEnv i) [0..<length treeListing] \<and>
   managedCalculateDirectoryMetadata treeEnv treeRenter ''a'' = ((afterSub, None), treeRenter) \<and>
   Health afterSub =
     Max (insert (DefaultDirHealth treeEnv) (bmHealth ` set (fileChildren treeEnv ''a'' treeListing))) \<and>
   Health afterSub = 1 / 2 \<and> Health subMetadata = 3 / 4 \<and> AggregateHealth subMetadata = 7 / 8"
  using health_from_file_children[of treeEnv "''a''" treeListing treeRenter afterSub treeRenter]
  by (simp add: treeEnv_fields tree_calculation afterSub_def subMetadata_def list_all_iff)

text \<open>
  Claim C7, the code at a failing input. In \<open>stopEnv\<close> the stop channel is closed when
  the second entry of \<open>a\<close> is about to be processed. The file child \<open>x.sia\<close> has health
  a half, so the maximum of the default health and the healths of the file children is a
  half. The function returns a nil error, a success to its caller, with the zero value,
  whose \<open>Health\<close> is 0: the early return of the shutdown check hands back the outer
  \<open>err\<close>, which is nil.
\<close>

theorem shutdown_reported_as_success:
  "ReadDir stopEnv (SiaDirSysPath stopEnv ''a'') = (treeListing, None) \<and>
   StopChan stopEnv 1 \<and>
   fileChildren stopEnv ''a'' treeListing = [xMetadata] \<and>
   bmHealth xMetadata = 1 / 2 \<and>
   Max (insert (DefaultDirHealth stopEnv) (bmHealth ` set (fileChildren stopEnv ''a'' treeListing)))
     = 1 / 2 \<and>
   managedCalculateDirectoryMetadata stopEnv treeRenter ''a''
     = ((Metadata_zero, None), treeRenter) \<and>
   Health Metadata_zero = 0"
proof -
  have children: "fileChildren stopEnv ''a'' treeListing = [xMetadata]"
    by (simp add: fileChildren_def fileChild_def treeListing_def stopEnv_fields Ext_x Ext_sub
        Ext_notes Trim_x probe_stuckFile)
  have calc: "managedCalculateDirectoryMetadata stopEnv treeRenter ''a''
      = ((Metadata_zero, None), treeRenter)"
    by (simp add: managedCalculateDirectoryMetadata_def treeListing_def stopEnv_fields entry_x)
  show ?thesis
    unfolding children calc
    by (simp add: stopEnv_fields xMetadata_def Metadata_zero_def)
qed

subsection \<open>Stuck chunks\<close>

text \<open>
  Claim C2, the code at a failing input. The directory \<open>a\<close> has the file child
  \<open>x.sia\<close> with 3 stuck chunks and the subdirectory child \<open>sub\<close> with 2; the third
  entry is ignored. The sum over the children is 5; the calculation succeeds and
  returns 10, each child having been added in both places of the loop body.
\<close>

theorem stuck_chunks_counted_twice:
  "ReadDir treeEnv (SiaDirSysPath treeEnv ''a'') = (treeListing, None) \<and>
   fileChildren treeEnv ''a'' treeListing = [xMetadata] \<and>
   bmNumStuckChunks xMetadata = 3 \<and>
   managedDirectoryMetadata treeEnv treeRenter ''a/sub'' = ((subMetadata, None), treeRenter) \<and>
   NumStuckChunks subMetadata = 2 \<and>
   managedCalculateDirectoryMetadata treeEnv treeRenter ''a'' = ((afterSub, None), treeRenter) \<and>
   NumStuckChunks afterSub = 10"
  by (simp add: fileChildren_def fileChild_def treeListing_def treeEnv_fields Ext_x Ext_sub
      Ext_notes Trim_x probe_stuckFile read_sub tree_calculation xMetadata_def subMetadata_def
      afterSub_def)

subsection \<open>Shutdown\<close>

text \<open>
  Claim C4, as stated, fails. In \<open>stopEnv\<close> the stop channel is closed when the second
  entry of \<open>a\<close> is about to be processed. The metadata accumulated over the first entry
  is \<open>afterX\<close>, with one file; the function returns the zero value \<open>siadir.Metadata{}\<close>,
  with no file, and a nil error.
\<close>

theorem shutdown_counterexample:
  "StopChan stopEnv 1 \<and>
   ReadDir stopEnv (SiaDirSysPath stopEnv ''a'') = (treeListing, None) \<and>
   calculateLoop stopEnv ''a'' 0 (take 1 treeListing) (defaultMetadata stopEnv) treeRenter
     = (Inr afterX, treeRenter) \<and>
   NumFiles afterX = 1 \<and>
   managedCalculateDirectoryMetadata stopEnv treeRenter ''a''
     = ((Metadata_zero, None), treeRenter) \<and>
   NumFiles Metadata_zero = 0"
  by (simp add: managedCalculateDirectoryMetadata_def treeListing_def stopEnv_fields entry_x
      afterX_def Metadata_zero_def)

text \<open>
  Claim C4, amended. If the stop channel is found closed when an entry is about to be
  processed, after the entries \<open>pre\<close> before it have been processed, the function
  returns at once with the zero value of the metadata; the accumulated value is
  dropped, and neither this entry nor a later one is processed: the renter is as the
  entries \<open>pre\<close> left it.
\<close>

theorem shutdown_returns_zero:
  assumes "ReadDir env (SiaDirSysPath env p) = (pre @ fi # post, None)"
    and "calculateLoop env p 0 pre (defaultMetadata env) r = (Inr m, r1)"
    and "StopChan env (length pre)"
  shows "fst (fst (managedCalculateDirectoryMetadata env r p)) = Metadata_zero \<and>
         snd (managedCalculateDirectoryMetadata env r p) = r1"
  using assms by (simp add: managedCalculateDirectoryMetadata_def calculateLoop_append)

theorem shutdown_returns_zero_witness:
  "ReadDir stopEnv (SiaDirSysPath stopEnv ''a'') = (take 1 treeListing @ hd (drop 1 treeListing) # drop 2 treeListing, None) \<and>
   calculateLoop stopEnv ''a'' 0 (take 1 treeListing) (defaultMetadata stopEnv) treeRenter
     = (Inr afterX, treeRenter) \<and>
   StopChan stopEnv (length (take 1 treeListing)) \<and>
   fst (fst (managedCalculateDirectoryMetadata stopEnv treeRenter ''a'')) = Metadata_zero \<and>
   snd (managedCalculateDirectoryMetadata stopEnv treeRenter ''a'') = treeRenter"
  using shutdown_returns_zero[of stopEnv "''a''" "take 1 treeListing" "hd (drop 1 treeListing)"
      "drop 2 treeListing" treeRenter afterX treeRenter]
  by (simp add: treeListing_def stopEnv_fields entry_x)

subsection \<open>Failures of a child\<close>



subsection \<open>A directory without a record\<close>

text \<open>
  Claim C9, the code at a failing input. The directory \<open>a\<close> has three entries and no
  record. \<open>NewSiaDir\<close> creates the record, yet the call returns the zero value with
  the absent-error of \<open>Open\<close>, not the metadata of the new record: the error of
  \<open>NewSiaDir\<close> went to the \<open>err\<close> of the inner block, and the test after the block
  reads the outer one.
\<close>

theorem absent_record_created_but_error_returned:
  "staticDirSet emptyRenter ''a'' = None \<and>
   ReadDir treeEnv (SiaDirSysPath treeEnv ''a'') = (treeListing, None) \<and>
   length treeListing = 3 \<and>
   managedDirectoryMetadata treeEnv emptyRenter ''a'' =
     ((Metadata_zero, Some (Extern NotExist)),
      emptyRenter\<lparr>staticDirSet := [''a'' \<mapsto> newDirMetadata]\<rparr>)"
  by (simp add: managedDirectoryMetadata_def staticDirSet_Open_def NewSiaDir_def
      directoryMetadataResult_def treeEnv_fields emptyRenter_def treeListing_def)

section \<open>Properties of the driver\<close>

subsection \<open>What the calculation and the deferred function change\<close>

lemma onlyDirs_refl: "onlyDirs r r"
  by (simp add: onlyDirs_def)

lemma onlyDirs_trans: "onlyDirs r r1 \<Longrightarrow> onlyDirs r1 r2 \<Longrightarrow> onlyDirs r r2"
  by (simp add: onlyDirs_def)

lemma onlyDirs_managedDirectoryMetadata:
  "onlyDirs r (snd (managedDirectoryMetadata env r p))"
  by (simp add: managedDirectoryMetadata_def NewSiaDir_def onlyDirs_def
      split: prod.split option.split)

lemma snd_calculateEntry:
  "snd (calculateEntry env p fi m r) =
     (if Ext (Name fi) \<noteq> SiaFileExtension env \<and> IsDir fi \<and> snd (Join env p (Name fi)) = None
      then snd (managedDirectoryMetadata env r (fst (Join env p (Name fi))))
      else r)"
  by (simp add: calculateEntry_def split: prod.split option.split)

lemma onlyDirs_calculateEntry: "onlyDirs r (snd (calculateEntry env p fi m r))"
  by (simp add: snd_calculateEntry onlyDirs_refl onlyDirs_managedDirectoryMetadata)

lemma onlyDirs_calculateLoop: "onlyDirs r (snd (calculateLoop env p i fis m r))"
proof (induction fis arbitrary: i m r)
  case Nil
  then show ?case by (simp add: onlyDirs_refl)
next
  case (Cons fi fis)
  show ?case
  proof (cases "StopChan env i")
    case True
    then show ?thesis by (simp add: onlyDirs_refl)
  next
    case False
    obtain x r1 where e: "calculateEntry env p fi m r = (x, r1)" by (metis prod.exhaust)
    have r1: "onlyDirs r r1" using onlyDirs_calculateEntry[of r env p fi m] e by simp
    show ?thesis
    proof (cases x)
      case (Inl ret)
      then show ?thesis using False e r1 by simp
    next
      case (Inr m1)
      then show ?thesis using False e onlyDirs_trans[OF r1 Cons.IH[of r1 "Suc i" m1]] by simp
    qed
  qed
qed

lemma onlyDirs_calculation:
  "onlyDirs r (snd (managedCalculateDirectoryMetadata env r p))"
proof (cases "ReadDir env (SiaDirSysPath env p)")
  case (Pair fis err)
  show ?thesis
  proof (cases err)
    case None
    obtain x r1 where l: "calculateLoop env p 0 fis (defaultMetadata env) r = (x, r1)"
      by (metis prod.exhaust)
    have "onlyDirs r r1" using onlyDirs_calculateLoop[of r env p 0 fis "defaultMetadata env"] l
      by simp
    then show ?thesis using Pair None l
      by (cases x) (simp_all add: managedCalculateDirectoryMetadata_def)
  next
    case (Some e)
    then show ?thesis using Pair
      by (simp add: managedCalculateDirectoryMetadata_def onlyDirs_refl)
  qed
qed

lemma admitted_needed:
  "bubbleUpdates r p = None \<or> bubbleUpdates r p = Some bubbleInit \<Longrightarrow>
   managedBubbleNeeded r p =
     ((True, None), r\<lparr>bubbleUpdates := (bubbleUpdates r)(p \<mapsto> bubbleActive)\<rparr>)"
  by (auto simp: managedBubbleNeeded_def)

lemma deferred_frame:
  "staticDirSet (snd (bubbleDeferred env rr p)) = staticDirSet rr \<and>
   repairNeeded (snd (bubbleDeferred env rr p)) = repairNeeded rr \<and>
   stuckChunkFound (snd (bubbleDeferred env rr p)) = stuckChunkFound rr"
  by (auto simp add: bubbleDeferred_def managedCompleteBubbleUpdate_def saveBubbleUpdates_def
      split: prod.split option.split bubbleStatus.split)

lemma deferred_table:
  "bubbleUpdates (snd (bubbleDeferred env rr p)) =
     (case bubbleUpdates rr p of
        Some bubbleActive \<Rightarrow> (bubbleUpdates rr)(p := None)
      | Some bubblePending \<Rightarrow> (bubbleUpdates rr)(p \<mapsto> bubbleInit)
      | _ \<Rightarrow> bubbleUpdates rr)"
  by (auto simp add: bubbleDeferred_def managedCompleteBubbleUpdate_def saveBubbleUpdates_def
      split: prod.split option.split bubbleStatus.split)

lemma deferred_spawned:
  "spawned (snd (bubbleDeferred env rr p)) =
     spawned rr @ (if bubbleUpdates rr p = Some bubblePending then [p] else []) @
     (if (bubbleUpdates rr p = None \<or>
          ((bubbleUpdates rr p = Some bubbleActive \<or> bubbleUpdates rr p = Some bubblePending) \<and>
           saveAnswer env = None)) \<and>
         \<not> IsRoot env p \<and> snd (Dir env p) = None
      then [fst (Dir env p)] else [])"
  by (auto simp add: bubbleDeferred_def managedCompleteBubbleUpdate_def saveBubbleUpdates_def
      split: prod.split option.split bubbleStatus.split)

lemma bubbleBody_frame:
  "bubbleUpdates (snd (bubbleBody env r p)) = bubbleUpdates r \<and>
   spawned (snd (bubbleBody env r p)) = spawned r"
proof -
  obtain md cerr r1 where c: "managedCalculateDirectoryMetadata env r p = ((md, cerr), r1)"
    by (metis prod.exhaust)
  have "onlyDirs r r1" using onlyDirs_calculation[of r env p] c by simp
  then have "bubbleUpdates r1 = bubbleUpdates r \<and> spawned r1 = spawned r"
    by (simp add: onlyDirs_def)
  then show ?thesis using c
    by (auto simp add: bubbleBody_def UpdateMetadata_def signalRepairNeeded_def
        signalStuckChunkFound_def Let_def staticDirSet_Open_def split: prod.split option.split)
qed

lemma driver_admitted:
  assumes "bubbleUpdates r p = None \<or> bubbleUpdates r p = Some bubbleInit"
  shows "managedBubbleMetadata env r p =
           (fst (bubbleBody env (snd (managedBubbleNeeded r p)) p),
            snd (bubbleDeferred env
                   ((snd (bubbleBody env (snd (managedBubbleNeeded r p)) p))
                      \<lparr>bubbleUpdates := otherGoroutines env ((bubbleUpdates r)(p \<mapsto> bubbleActive))\<rparr>) p))"
proof -
  have "bubbleUpdates (snd (bubbleBody env (snd (managedBubbleNeeded r p)) p))
          = (bubbleUpdates r)(p \<mapsto> bubbleActive)"
    by (simp add: bubbleBody_frame admitted_needed[OF assms])
  then show ?thesis
    by (auto simp add: managedBubbleMetadata_def admitted_needed[OF assms] split: prod.split)
qed

lemma saveFailEnv_fields:
  "IsRoot saveFailEnv p = (p = [])"
  "Dir saveFailEnv p = (if p = [] then ([], Some (Failure ''root'')) else (parentOf p, None))"
  "saveAnswer saveFailEnv = Some (Failure ''disk full'')"
  "otherGoroutines saveFailEnv m = m"
  by (simp_all add: saveFailEnv_def treeEnv_fields)

lemma pendingEnv_fields:
  "IsRoot pendingEnv p = (p = [])"
  "Dir pendingEnv p = (if p = [] then ([], Some (Failure ''root'')) else (parentOf p, None))"
  "saveAnswer pendingEnv = None"
  "otherGoroutines pendingEnv m = m(''a'' \<mapsto> bubblePending)"
  by (simp_all add: pendingEnv_def treeEnv_fields)

lemma readFailEnv_fields:
  "IsRoot readFailEnv p = (p = [])"
  "SiaDirSysPath readFailEnv p = ''/renter/'' @ p"
  "ReadDir readFailEnv sys = ([], Some (Failure ''input/output error''))"
  "UpdateMetadataAnswer readFailEnv p = None"
  "OpenFault readFailEnv p = None"
  by (simp_all add: readFailEnv_def baseEnv_fields)

lemma rootEnv_fields:
  "SiaFileExtension rootEnv = ''.sia''"
  "DefaultDirHealth rootEnv = 0"
  "RemoteRepairDownloadThreshold rootEnv = 1 / 4"
  "IsRoot rootEnv p = (p = [])"
  "Join rootEnv p name = (if p = [] then name else p @ ''/'' @ name, None)"
  "SiaDirSysPath rootEnv p = ''/renter/'' @ p"
  "ReadDir rootEnv sys =
     (if sys = ''/renter/'' then ([\<lparr>Name = ''x.sia'', IsDir = False\<rparr>], None) else ([], None))"
  "StopChan rootEnv i = False"
  "Now rootEnv n = 1000 + int n"
  "staticFileSet_Open rootEnv p = (stuckFile, None)"
  "OpenFault rootEnv p = None"
  "UpdateMetadataAnswer rootEnv p = None"
  by (simp_all add: rootEnv_def baseEnv_fields)

lemma parentOf_a: "parentOf ''a'' = []"
  by (simp add: parentOf_def)

lemma readFail_calculation:
  "managedCalculateDirectoryMetadata readFailEnv r p
     = ((Metadata_zero, Some (Extern (Failure ''input/output error''))), r)"
  by (simp add: managedCalculateDirectoryMetadata_def readFailEnv_fields)

lemma root_calculation:
  "managedCalculateDirectoryMetadata rootEnv r [] = ((afterX, None), r)"
  by (simp add: managedCalculateDirectoryMetadata_def rootEnv_fields entry_x sanity_afterX)

lemma rootRenter_admitted:
  "bubbleUpdates rootRenter [] = None \<or> bubbleUpdates rootRenter [] = Some bubbleInit"
  by (simp add: rootRenter_def emptyRenter_def)

lemma subMetadata_not_zero: "subMetadata \<noteq> Metadata_zero"
  by (simp add: subMetadata_def Metadata_zero_def)

subsection \<open>An error of the calculation\<close>

text \<open>
  Claim C1, as stated, fails. Reading the root directory fails, so the calculation
  returns the zero value and an error. The driver returns that error with the context
  of the directory; the record of the root, which would accept a write, still holds the
  metadata it held before and not the computed value.
\<close>

theorem calculation_error_counterexample:
  "IsRoot readFailEnv [] \<and> bubbleUpdates rootRenter [] = None \<and>
   staticDirSet rootRenter [] = Some subMetadata \<and>
   fst (managedCalculateDirectoryMetadata readFailEnv (snd (managedBubbleNeeded rootRenter [])) [])
     = (Metadata_zero, Some (Extern (Failure ''input/output error''))) \<and>
   fst (managedBubbleMetadata readFailEnv rootRenter []) =
     Some (AddContext (Extern (Failure ''input/output error''))
             ''could not calculate the metadata of directory /renter/'') \<and>
   staticDirSet (snd (managedBubbleMetadata readFailEnv rootRenter [])) [] = Some subMetadata \<and>
   subMetadata \<noteq> Metadata_zero"
  unfolding driver_admitted[OF rootRenter_admitted] admitted_needed[OF rootRenter_admitted]
  by (simp add: readFail_calculation bubbleBody_def deferred_frame readFailEnv_fields
      subMetadata_not_zero rootRenter_def emptyRenter_def)

text \<open>
  Claim C1, amended. On a run that the coordinator admits, an error of the calculation
  is returned at once with the context of the directory: the record is not written
  and the signal channels are as before. When the calculation succeeds, an error of
  opening or of updating the record is kept with its context and returned at the end,
  and it does not cut the run short: at the root the repair-needed and stuck-chunk
  signals are sent according to the computed metadata, whatever the write did.
\<close>

theorem calculation_error_returns:
  assumes "bubbleUpdates r p = None \<or> bubbleUpdates r p = Some bubbleInit"
    and "managedCalculateDirectoryMetadata env (snd (managedBubbleNeeded r p)) p
           = ((metadata, cerr), r1)"
    and "managedBubbleMetadata env r p = (err, r')"
  shows "case cerr of
           Some e \<Rightarrow>
             err = Some (AddContext e (''could not calculate the metadata of directory ''
                                        @ SiaDirSysPath env p)) \<and>
             staticDirSet r' = staticDirSet r1 \<and>
             repairNeeded r' = repairNeeded r \<and> stuckChunkFound r' = stuckChunkFound r
         | None \<Rightarrow>
             repairNeeded r' =
               (repairNeeded r \<or>
                (IsRoot env p \<and> RemoteRepairDownloadThreshold env \<le> AggregateHealth metadata)) \<and>
             stuckChunkFound r' =
               (stuckChunkFound r \<or> (IsRoot env p \<and> 0 < NumStuckChunks metadata)) \<and>
             (err, staticDirSet r') =
               (case staticDirSet_Open env r1 p of
                  (siaDir, Some oe) \<Rightarrow>
                    (Some (AddContext oe (''could not open directory '' @ SiaDirSysPath env p)),
                     staticDirSet r1)
                | (siaDir, None) \<Rightarrow>
                    (case UpdateMetadataAnswer env p of
                       Some ue \<Rightarrow>
                         (Some (AddContext (Extern ue)
                                  (''could not update the metadata of the  directory ''
                                   @ SiaDirSysPath env p)),
                          staticDirSet r1)
                     | None \<Rightarrow> (None, (staticDirSet r1)(p \<mapsto> metadata))))"
proof -
  let ?r0 = "snd (managedBubbleNeeded r p)"
  have "onlyDirs ?r0 r1" using onlyDirs_calculation[of ?r0 env p] assms(2) by simp
  then have sig: "repairNeeded r1 = repairNeeded r" "stuckChunkFound r1 = stuckChunkFound r"
    by (simp_all add: onlyDirs_def admitted_needed[OF assms(1)])
  have err: "err = fst (bubbleBody env ?r0 p)"
    and dirs: "staticDirSet r' = staticDirSet (snd (bubbleBody env ?r0 p))"
    and rep: "repairNeeded r' = repairNeeded (snd (bubbleBody env ?r0 p))"
    and stk: "stuckChunkFound r' = stuckChunkFound (snd (bubbleBody env ?r0 p))"
    using assms(3) unfolding driver_admitted[OF assms(1)] by (auto simp: deferred_frame)
  show ?thesis
  proof (cases cerr)
    case (Some e)
    then show ?thesis using assms(2) sig unfolding err dirs rep stk
      by (simp add: bubbleBody_def)
  next
    case None
    then show ?thesis using assms(2) sig unfolding err dirs rep stk
      by (auto simp add: bubbleBody_def UpdateMetadata_def signalRepairNeeded_def
          signalStuckChunkFound_def Let_def split: prod.split option.split)
  qed
qed

theorem calculation_error_returns_witness:
  "bubbleUpdates rootRenter [] = None \<and>
   fst (managedCalculateDirectoryMetadata readFailEnv (snd (managedBubbleNeeded rootRenter [])) [])
     = (Metadata_zero, Some (Extern (Failure ''input/output error''))) \<and>
   fst (managedBubbleMetadata readFailEnv rootRenter []) =
     Some (AddContext (Extern (Failure ''input/output error''))
             ''could not calculate the metadata of directory /renter/'') \<and>
   staticDirSet (snd (managedBubbleMetadata readFailEnv rootRenter [])) [] = Some subMetadata \<and>
   \<not> repairNeeded (snd (managedBubbleMetadata readFailEnv rootRenter [])) \<and>
   \<not> stuckChunkFound (snd (managedBubbleMetadata readFailEnv rootRenter [])) \<and>
   fst (managedCalculateDirectoryMetadata rootEnv (snd (managedBubbleNeeded rootRenter [])) [])
     = (afterX, None) \<and>
   fst (managedBubbleMetadata rootEnv rootRenter []) = None \<and>
   staticDirSet (snd (managedBubbleMetadata rootEnv rootRenter [])) [] = Some afterX \<and>
   repairNeeded (snd (managedBubbleMetadata rootEnv rootRenter [])) \<and>
   stuckChunkFound (snd (managedBubbleMetadata rootEnv rootRenter []))"
  using calculation_error_returns[of rootRenter "[]" readFailEnv Metadata_zero
      "Some (Extern (Failure ''input/output error''))" "snd (managedBubbleNeeded rootRenter [])"
      "fst (managedBubbleMetadata readFailEnv rootRenter [])"
      "snd (managedBubbleMetadata readFailEnv rootRenter [])"]
    calculation_error_returns[of rootRenter "[]" rootEnv afterX None
      "snd (managedBubbleNeeded rootRenter [])"
      "fst (managedBubbleMetadata rootEnv rootRenter [])"
      "snd (managedBubbleMetadata rootEnv rootRenter [])"]
  unfolding admitted_needed[OF rootRenter_admitted]
  by (simp add: readFail_calculation root_calculation readFailEnv_fields rootEnv_fields
      staticDirSet_Open_def afterX_def rootRenter_def emptyRenter_def)

subsection \<open>Completion and the parent\<close>

text \<open>
  Claim C5, as stated, fails. The run on \<open>a\<close> is admitted and \<open>a\<close> is not the root;
  the save of the table fails, so \<open>managedCompleteBubbleUpdate\<close>, which has deleted the
  entry, returns an error, and the deferred function returns before it starts the
  bubble of the parent.
\<close>

theorem parent_not_scheduled_counterexample:
  "bubbleUpdates treeRenter ''a'' = None \<and> \<not> IsRoot saveFailEnv ''a'' \<and>
   Dir saveFailEnv ''a'' = ([], None) \<and>
   bubbleUpdates (snd (managedBubbleMetadata saveFailEnv treeRenter ''a'')) ''a'' = None \<and>
   spawned (snd (managedBubbleMetadata saveFailEnv treeRenter ''a'')) = []"
proof -
  have a: "bubbleUpdates treeRenter ''a'' = None \<or> bubbleUpdates treeRenter ''a'' = Some bubbleInit"
    by (simp add: treeRenter_def emptyRenter_def)
  have "spawned (snd (bubbleBody saveFailEnv (snd (managedBubbleNeeded treeRenter ''a'')) ''a''))
          = []"
    unfolding admitted_needed[OF a]
    by (simp add: bubbleBody_frame treeRenter_def emptyRenter_def)
  then show ?thesis
    unfolding driver_admitted[OF a]
    by (simp add: deferred_table deferred_spawned saveFailEnv_fields parentOf_a treeRenter_def
        emptyRenter_def)
qed

text \<open>
  Claim C5, amended. On a run that the coordinator admits, whatever the calculation
  and the write of the record did, the deferred function calls
  \<open>managedCompleteBubbleUpdate\<close> on the table \<open>t\<close> as the other goroutines left it:
  \<open>bubbleActive\<close> is deleted, \<open>bubblePending\<close> becomes \<open>bubbleInit\<close> with a new run on
  the path. The bubble of the parent is then started, once, exactly when that call
  returned no error, the path is not the root and \<open>Dir\<close> gave the parent.
\<close>

theorem parent_scheduled_after_completion:
  assumes "bubbleUpdates r p = None \<or> bubbleUpdates r p = Some bubbleInit"
    and "t = otherGoroutines env ((bubbleUpdates r)(p \<mapsto> bubbleActive))"
    and "r' = snd (managedBubbleMetadata env r p)"
  shows "bubbleUpdates r' =
           (case t p of
              Some bubbleActive \<Rightarrow> t(p := None)
            | Some bubblePending \<Rightarrow> t(p \<mapsto> bubbleInit)
            | _ \<Rightarrow> t) \<and>
         spawned r' =
           spawned r @ (if t p = Some bubblePending then [p] else []) @
           (if (t p = None \<or>
                ((t p = Some bubbleActive \<or> t p = Some bubblePending) \<and> saveAnswer env = None)) \<and>
               \<not> IsRoot env p \<and> snd (Dir env p) = None
            then [fst (Dir env p)] else [])"
proof -
  have "spawned (snd (bubbleBody env (snd (managedBubbleNeeded r p)) p)) = spawned r"
    by (simp add: bubbleBody_frame admitted_needed[OF assms(1)])
  then show ?thesis
    unfolding assms(3) driver_admitted[OF assms(1)] assms(2)
    by (simp add: deferred_table deferred_spawned split: option.split bubbleStatus.split)
qed

theorem parent_scheduled_after_completion_witness:
  "bubbleUpdates treeRenter ''a'' = None \<and>
   bubbleUpdates (snd (managedBubbleMetadata treeEnv treeRenter ''a'')) ''a'' = None \<and>
   spawned (snd (managedBubbleMetadata treeEnv treeRenter ''a'')) = [[]] \<and>
   bubbleUpdates (snd (managedBubbleMetadata pendingEnv treeRenter ''a'')) ''a''
     = Some bubbleInit \<and>
   spawned (snd (managedBubbleMetadata pendingEnv treeRenter ''a'')) = [''a'', []]"
  using parent_scheduled_after_completion[of treeRenter "''a''"
      "otherGoroutines treeEnv ((bubbleUpdates treeRenter)(''a'' \<mapsto> bubbleActive))" treeEnv
      "snd (managedBubbleMetadata treeEnv treeRenter ''a'')"]
    parent_scheduled_after_completion[of treeRenter "''a''"
      "otherGoroutines pendingEnv ((bubbleUpdates treeRenter)(''a'' \<mapsto> bubbleActive))" pendingEnv
      "snd (managedBubbleMetadata pendingEnv treeRenter ''a'')"]
  by (simp add: treeEnv_fields pendingEnv_fields parentOf_a treeRenter_def emptyRenter_def)

end
